theory Spec2Isabelle
  imports Main "HOL-Library.AList" "HOL-Library.Multiset"
begin

section \<open>Domain entities\<close>

text \<open>
  A channel id is a \<open>uuid.UUID\<close>. The only thing the supervisor does with an id besides
  comparing it is to print it (\<open>channel.ID.String()\<close>) into the output directory name, so
  an id is represented by its canonical text.
\<close>

datatype uuid = UUID (uuid_String: string)

text \<open>\<open>type ChannelStatus string\<close> with its five constants (domain/channel.go).\<close>

type_synonym ChannelStatus = string

abbreviation ChannelStatusStopped :: ChannelStatus where "ChannelStatusStopped \<equiv> ''stopped''"
abbreviation ChannelStatusStarting :: ChannelStatus where "ChannelStatusStarting \<equiv> ''starting''"
abbreviation ChannelStatusRunning :: ChannelStatus where "ChannelStatusRunning \<equiv> ''running''"
abbreviation ChannelStatusError :: ChannelStatus where "ChannelStatusError \<equiv> ''error''"
abbreviation ChannelStatusStopping :: ChannelStatus where "ChannelStatusStopping \<equiv> ''stopping''"

text \<open>
  \<open>LogoConfig\<close>, \<open>OutputConfig\<close> and \<open>Channel\<close>. The floating point field
  \<open>Opacity\<close> and the derived \<open>OutputURL\<close> play no part in any control decision and are
  left out. Times are nanoseconds since an arbitrary origin.
\<close>

record LogoConfig =
  Path :: string
  X :: int
  Y :: int
  Width :: int
  Height :: int

record OutputConfig =
  Codec :: string
  Bitrate :: string
  Resolution :: string
  Preset :: string
  Profile :: string

record Channel =
  ID :: uuid
  Name :: string
  SourceURL :: string
  Logo :: "LogoConfig option"
  OutputConfig :: "OutputConfig option"
  Status :: ChannelStatus
  AutoRestart :: bool
  CreatedAt :: int
  UpdatedAt :: int

text \<open>
  Go errors, one constructor per error the modelled code creates. A constructor with an
  \<open>error\<close> argument is a wrapping \<open>fmt.Errorf("...: %w", err)\<close>; a \<open>string\<close> argument
  is the text of an error coming from the operating system or the database driver.
\<close>

datatype error =
    ErrChannelNotFound
  | ErrChannelsRunning
  | ErrAlreadyRunning uuid
  | ErrNotRunning uuid
  | ErrProcessNotInitialized uuid
  | ErrCreateOutputDir string
  | ErrBuildArgs error
  | ErrLogoNotFound string
  | ErrStderrPipe string
  | ErrStartFFmpeg string
  | ErrDatabase string
  | ErrRowNotFound error
  | ErrValidation string
  | ErrSaveSettings error
  | ErrNilPointer

section \<open>The world outside the Go heap\<close>

text \<open>
  Everything the supervisor reaches through a system call or the database driver: the
  directories under the HLS root, the result of \<open>os.Stat\<close> on a path, whether
  \<open>os.MkdirAll\<close>, \<open>cmd.StderrPipe\<close> and \<open>cmd.Start\<close> succeed, the probe for
  \<open>numactl\<close>, the children that are alive and how they react to signals, the status
  files under \<open>/proc\<close>, the clock, the \<open>channels\<close> table and the \<open>system\<close>
  settings row. The
  database is either reachable for a whole operation or not (\<open>db_error\<close>).
  \<open>os.RemoveAll\<close> is taken to succeed: the code only logs its failure.
  The list \<open>events\<close> records, in order, what the supervisor did to the outside.
\<close>

text \<open>A value of the settings document after \<open>json.Unmarshal\<close>; numbers are whole.\<close>

datatype json = JNumber int | JString string | JBool bool

datatype stat_result = StatOk | StatNotExist | StatError string

datatype signal = SIGTERM | SIGKILL

datatype event =
    EvSleep int
  | EvSpawn nat "string list"
  | EvCancel nat
  | EvSignalGroup nat signal
  | EvSignalProcess nat signal

record world =
  dirs :: "string set"
  mkdir_error :: "string option"
  stat :: "string \<Rightarrow> stat_result"
  pipe_error :: "string option"
  exec_error :: "string option"
  numactl_available :: bool
  next_pid :: nat
  alive :: "nat set"
  survives_sigkill :: "nat set"
  procfs_status :: "nat \<Rightarrow> string option"
  now :: int
  events :: "event list"
  rows :: "Channel list"
  db_error :: "string option"
  settings_row :: "(string \<times> json) list option"

abbreviation millisecond :: int where "millisecond \<equiv> 1000000"
abbreviation second :: int where "second \<equiv> 1000000000"

definition Sleep :: "int \<Rightarrow> world \<Rightarrow> world" where
  "Sleep d w = w\<lparr>now := now w + d, events := events w @ [EvSleep d]\<rparr>"

definition MkdirAll :: "string \<Rightarrow> world \<Rightarrow> string option \<times> world" where
  "MkdirAll d w =
     (case mkdir_error w of
        Some e \<Rightarrow> (Some e, w)
      | None \<Rightarrow> (None, w\<lparr>dirs := insert d (dirs w)\<rparr>))"

definition RemoveAll :: "string \<Rightarrow> world \<Rightarrow> world" where
  "RemoveAll d w = w\<lparr>dirs := dirs w - {d}\<rparr>"

text \<open>
  \<open>filepath.Join\<close> and \<open>filepath.IsAbs\<close> on Linux. Empty elements are ignored; the
  lexical cleaning \<open>filepath.Join\<close> applies afterwards is not modelled (paths are taken
  to be clean already).
\<close>

definition filepath_Join :: "string \<Rightarrow> string \<Rightarrow> string" where
  "filepath_Join a b = (if a = [] then b else if b = [] then a else a @ ''/'' @ b)"

definition filepath_IsAbs :: "string \<Rightarrow> bool" where
  "filepath_IsAbs p = (case p of [] \<Rightarrow> False | c # _ \<Rightarrow> c = CHR ''/'')"

text \<open>\<open>strconv.Itoa\<close>, which is also what \<open>%d\<close> prints.\<close>

fun nat_dec :: "nat \<Rightarrow> string" where
  "nat_dec n = (if n < 10 then [char_of (48 + n)] else nat_dec (n div 10) @ [char_of (48 + n mod 10)])"

definition Itoa :: "int \<Rightarrow> string" where
  "Itoa i = (if i < 0 then CHR ''-'' # nat_dec (nat (- i)) else nat_dec (nat i))"

section \<open>Channel store (postgres/channel_repository.go)\<close>

text \<open>
  The \<open>channels\<close> table is the list of its rows. \<open>GetByID\<close> wraps every failure,
  a missing row included, as \<open>channel not found: ...\<close>; the two \<open>UPDATE\<close> statements
  and the \<open>DELETE\<close> succeed on a missing row and change nothing.
\<close>

definition GetByID :: "uuid \<Rightarrow> world \<Rightarrow> error + Channel" where
  "GetByID cid w =
     (case db_error w of
        Some e \<Rightarrow> Inl (ErrRowNotFound (ErrDatabase e))
      | None \<Rightarrow>
          (case find (\<lambda>c. ID c = cid) (rows w) of
             None \<Rightarrow> Inl (ErrRowNotFound (ErrDatabase ''no rows in result set''))
           | Some c \<Rightarrow> Inr c))"

definition GetAll :: "world \<Rightarrow> error + Channel list" where
  "GetAll w =
     (case db_error w of
        Some e \<Rightarrow> Inl (ErrDatabase e)
      | None \<Rightarrow> Inr (rev (sort_key CreatedAt (rows w))))"

definition UpdateStatus :: "uuid \<Rightarrow> ChannelStatus \<Rightarrow> world \<Rightarrow> error option \<times> world" where
  "UpdateStatus cid s w =
     (case db_error w of
        Some e \<Rightarrow> (Some (ErrDatabase e), w)
      | None \<Rightarrow>
          (None, w\<lparr>rows := map (\<lambda>c. if ID c = cid then c\<lparr>Status := s, UpdatedAt := now w\<rparr> else c)
                               (rows w)\<rparr>))"

definition Delete :: "uuid \<Rightarrow> world \<Rightarrow> error option \<times> world" where
  "Delete cid w =
     (case db_error w of
        Some e \<Rightarrow> (Some (ErrDatabase e), w)
      | None \<Rightarrow> (None, w\<lparr>rows := filter (\<lambda>c. ID c \<noteq> cid) (rows w)\<rparr>))"

section \<open>Process manager (infrastructure/ffmpeg/process.go)\<close>

text \<open>
  A \<open>Process\<close> is the LiveProcess record. \<open>Channel\<close> is a pointer the watcher tests
  against nil, hence an option; \<open>Cmd.Process\<close> is nil until the child is spawned, hence
  \<open>Pid\<close> is an option too. The metrics kept here are the ones the metrics fetch copies
  without floating point arithmetic; the log buffer is left out.
\<close>

record Process =
  ChannelID :: uuid
  Channel_snapshot :: "Channel option"
  Pid :: "nat option"
  StartedAt :: int
  Metrics_Bitrate :: string
  Metrics_DropFrames :: int

type_synonym StatusUpdateCallback = "uuid \<Rightarrow> ChannelStatus \<Rightarrow> world \<Rightarrow> error option \<times> world"

record ProcessManager =
  processes :: "(uuid \<times> Process) list"
  BinaryPath :: string
  hlsPath :: string
  logoPath :: string
  statusCallback :: "StatusUpdateCallback option"
  numaNodeCount :: int
  numaNodeCounter :: int

text \<open>
  \<open>processes\<close> is the Go map \<open>map[uuid.UUID]*Process\<close>, kept as an association list
  so that it can be counted and iterated: lookup is \<open>map_of\<close>, assignment
  \<open>AList.update\<close>, \<open>delete\<close> is \<open>AList.delete\<close>.
\<close>

definition NewProcessManager :: "string \<Rightarrow> string \<Rightarrow> string \<Rightarrow> int \<Rightarrow> ProcessManager" where
  "NewProcessManager bin hls logo detectedNodes =
     \<lparr>processes = [], BinaryPath = bin, hlsPath = hls, logoPath = logo,
      statusCallback = None,
      numaNodeCount = (if detectedNodes = 0 then 1 else detectedNodes),
      numaNodeCounter = 0\<rparr>"

definition SetStatusCallback :: "StatusUpdateCallback \<Rightarrow> ProcessManager \<Rightarrow> ProcessManager" where
  "SetStatusCallback callback m = m\<lparr>statusCallback := Some callback\<rparr>"

definition IsRunning :: "ProcessManager \<Rightarrow> uuid \<Rightarrow> bool" where
  "IsRunning m channelID = (map_of (processes m) channelID \<noteq> None)"

definition getNextNUMANode :: "ProcessManager \<Rightarrow> int \<times> ProcessManager" where
  "getNextNUMANode m =
     (if numaNodeCount m \<le> 1 then (0, m)
      else (numaNodeCounter m mod numaNodeCount m,
            m\<lparr>numaNodeCounter := numaNodeCounter m + 1\<rparr>))"

text \<open>
  \<open>buildArgs\<close>. The vector starts with the fixed input options and the source URL. A
  configured logo is resolved against \<open>logoPath\<close> unless absolute, and checked with
  \<open>os.Stat\<close>: only \<open>os.IsNotExist\<close> makes the builder fail. The filter graph and the
  codec, audio and HLS options that follow are appended unconditionally from the
  settings and cannot fail; of them only the two stream maps and the playlist path are
  kept here. \<open>buildArgs\<close> reads the world and returns no new one.
\<close>

definition input_args :: "string \<Rightarrow> string list" where
  "input_args src =
     [''-hide_banner'', ''-loglevel'', ''warning'', ''-progress'', ''pipe:2'',
      ''-reconnect'', ''1'', ''-reconnect_streamed'', ''1'', ''-reconnect_delay_max'', ''2'',
      ''-reconnect_at_eof'', ''1'', ''-timeout'', ''5000000'',
      ''-fflags'', ''+genpts+discardcorrupt+nobuffer'',
      ''-analyzeduration'', ''2000000'', ''-probesize'', ''2000000'',
      ''-thread_queue_size'', ''512'', ''-i'', src]"

definition resolveLogoPath :: "ProcessManager \<Rightarrow> LogoConfig \<Rightarrow> string" where
  "resolveLogoPath m l =
     (if filepath_IsAbs (Path l) then Path l else filepath_Join (logoPath m) (Path l))"

definition buildArgs :: "ProcessManager \<Rightarrow> world \<Rightarrow> Channel \<Rightarrow> string \<Rightarrow> nat \<Rightarrow> error + string list" where
  "buildArgs m w channel outputDir activeProcessCount =
     (let args = input_args (SourceURL channel) in
      case Logo channel of
        None \<Rightarrow> Inr (args @ [''-map'', ''[vout]'', ''-map'', ''0:a'', filepath_Join outputDir ''index.m3u8''])
      | Some l \<Rightarrow>
          if Path l = [] then
            Inr (args @ [''-map'', ''[vout]'', ''-map'', ''0:a'', filepath_Join outputDir ''index.m3u8''])
          else
            (let lp = resolveLogoPath m l in
             if stat w lp = StatNotExist then Inl (ErrLogoNotFound lp)
             else Inr (args @ [''-i'', lp] @
                       [''-map'', ''[vout]'', ''-map'', ''0:a'', filepath_Join outputDir ''index.m3u8''])))"

text \<open>
  \<open>Start\<close>. The whole body runs under the supervisor lock, so it is one atomic step.
  The checks are in the order of the source: existing entry, \<open>MkdirAll\<close>, \<open>buildArgs\<close>,
  NUMA placement (which advances the round robin counter), \<open>StderrPipe\<close>, \<open>cmd.Start\<close>.
  Setting the priority can only log. On success the child is alive under a fresh pid and
  the entry is stored under \<open>channel.ID\<close>.
\<close>

definition outputDirOf :: "ProcessManager \<Rightarrow> uuid \<Rightarrow> string" where
  "outputDirOf m channelID = filepath_Join (hlsPath m) (uuid_String channelID)"

definition command_line :: "ProcessManager \<Rightarrow> world \<Rightarrow> string list \<Rightarrow> string list \<times> ProcessManager" where
  "command_line m w args =
     (if numaNodeCount m > 1 \<and> numactl_available w then
        (let (numaNode, m') = getNextNUMANode m in
         (''numactl'' # (''--cpunodebind='' @ Itoa numaNode) #
            (''--membind='' @ Itoa numaNode) # BinaryPath m # args, m'))
      else (BinaryPath m # args, m))"

definition Start :: "Channel \<Rightarrow> ProcessManager \<Rightarrow> world \<Rightarrow> error option \<times> ProcessManager \<times> world" where
  "Start channel m w =
     (if map_of (processes m) (ID channel) \<noteq> None then (Some (ErrAlreadyRunning (ID channel)), m, w)
      else
        (let activeProcessCount = length (processes m);
             outputDir = outputDirOf m (ID channel) in
         case MkdirAll outputDir w of
           (Some e, w1) \<Rightarrow> (Some (ErrCreateOutputDir e), m, w1)
         | (None, w1) \<Rightarrow>
             (case buildArgs m w1 channel outputDir activeProcessCount of
                Inl e \<Rightarrow> (Some (ErrBuildArgs e), m, w1)
              | Inr args \<Rightarrow>
                  (let (cmd, m1) = command_line m w1 args in
                   case pipe_error w1 of
                     Some e \<Rightarrow> (Some (ErrStderrPipe e), m1, w1)
                   | None \<Rightarrow>
                       (case exec_error w1 of
                          Some e \<Rightarrow> (Some (ErrStartFFmpeg e), m1, w1)
                        | None \<Rightarrow>
                            (let pid = next_pid w1;
                                 process = \<lparr>ChannelID = ID channel, Channel_snapshot = Some channel,
                                            Pid = Some pid, StartedAt = now w1,
                                            Metrics_Bitrate = [], Metrics_DropFrames = 0\<rparr>
                             in (None,
                                 m1\<lparr>processes := AList.update (ID channel) process (processes m1)\<rparr>,
                                 w1\<lparr>next_pid := Suc pid, alive := insert pid (alive w1),
                                    events := events w1 @ [EvSpawn pid cmd]\<rparr>)))))))"

text \<open>
  \<open>Stop\<close>. The entry is removed under the lock before anything is signalled. Then the
  child context is cancelled, on which \<open>os/exec\<close> kills the child, and SIGTERM goes to
  the process group, or to the single process when \<open>Getpgid\<close> fails (the model: when
  the child is already gone). A child that has not exited after 3 s gets SIGKILL, and the
  code waits up to 2 s more. The output directory is removed in every case, also when
  there was no entry, and the result is always nil.
\<close>

definition send_signal :: "nat \<Rightarrow> signal \<Rightarrow> world \<Rightarrow> world" where
  "send_signal pid sig w =
     (if pid \<in> alive w then w\<lparr>events := events w @ [EvSignalGroup pid sig]\<rparr>
      else w\<lparr>events := events w @ [EvSignalProcess pid sig]\<rparr>)"

definition terminate :: "nat \<Rightarrow> world \<Rightarrow> world" where
  "terminate pid w =
     (let w1 = send_signal pid SIGTERM (w\<lparr>events := events w @ [EvCancel pid]\<rparr>) in
      if pid \<notin> survives_sigkill w1 then w1\<lparr>alive := alive w1 - {pid}\<rparr>
      else
        (let w2 = send_signal pid SIGKILL (w1\<lparr>now := now w1 + 3 * second\<rparr>) in
         w2\<lparr>now := now w2 + 2 * second\<rparr>))"

definition Stop :: "uuid \<Rightarrow> ProcessManager \<Rightarrow> world \<Rightarrow> error option \<times> ProcessManager \<times> world" where
  "Stop channelID m w =
     (case map_of (processes m) channelID of
        None \<Rightarrow> (None, m, RemoveAll (outputDirOf m channelID) w)
      | Some process \<Rightarrow>
          (let m1 = m\<lparr>processes := AList.delete channelID (processes m)\<rparr>;
               w1 = (case Pid process of None \<Rightarrow> w | Some pid \<Rightarrow> terminate pid w)
           in (None, m1, RemoveAll (outputDirOf m channelID) w1)))"

text \<open>
  \<open>Restart\<close> of the process manager: an error when there is no entry, otherwise
  \<open>Stop\<close>, one second of sleep, \<open>Start\<close> with the channel the old entry held
  (\<open>Start\<close> dereferences that pointer: a nil one is a panic, \<open>ErrNilPointer\<close>).
\<close>

definition Restart :: "uuid \<Rightarrow> ProcessManager \<Rightarrow> world \<Rightarrow> error option \<times> ProcessManager \<times> world" where
  "Restart channelID m w =
     (case map_of (processes m) channelID of
        None \<Rightarrow> (Some (ErrNotRunning channelID), m, w)
      | Some process \<Rightarrow>
          (case Stop channelID m w of
             (Some e, m1, w1) \<Rightarrow> (Some e, m1, w1)
           | (None, m1, w1) \<Rightarrow>
               (case Channel_snapshot process of
                  None \<Rightarrow> (Some ErrNilPointer, m1, Sleep second w1)
                | Some channel \<Rightarrow> Start channel m1 (Sleep second w1))))"

text \<open>
  \<open>watchProcess\<close>, the watcher of one child, from the moment \<open>Cmd.Wait\<close> returns. It
  runs in two parts with a 2 s sleep between them, during which other operations may take
  the lock, so the parts are two functions. \<open>watchProcess_exit\<close> is everything up to
  the sleep: it removes the entry of the channel if there is one, and decides between
  \<^item> entry already gone: remove the directory, return;
  \<^item> uptime below \<open>minUptimeForRestart\<close>: remove the directory, report
    \<open>stopped\<close> through the status callback, return;
  \<^item> auto restart on: go to sleep (\<open>RestartPending\<close>);
  \<^item> otherwise: remove the directory, return.
  \<open>watchProcess_resume\<close> is the part after the sleep: it looks the channel up in the
  table again, removes the directory and returns when there is no entry, and calls
  \<open>Start\<close> otherwise; a failed \<open>Start\<close> removes the directory and reports \<open>error\<close>.
  \<open>watchProcess\<close> is the watcher running undisturbed.
\<close>

abbreviation minUptimeForRestart :: int where "minUptimeForRestart \<equiv> 10 * second"

datatype watch_state = Returned | RestartPending Channel

definition report_status :: "ProcessManager \<Rightarrow> uuid \<Rightarrow> ChannelStatus \<Rightarrow> world \<Rightarrow> world" where
  "report_status m channelID s w =
     (case statusCallback m of None \<Rightarrow> w | Some callback \<Rightarrow> snd (callback channelID s w))"

definition watchProcess_exit :: "Process \<Rightarrow> ProcessManager \<Rightarrow> world \<Rightarrow> watch_state \<times> ProcessManager \<times> world" where
  "watchProcess_exit process m w =
     (let uptime = now w - StartedAt process;
          stillInMap = (map_of (processes m) (ChannelID process) \<noteq> None);
          m1 = (if stillInMap then m\<lparr>processes := AList.delete (ChannelID process) (processes m)\<rparr>
                else m);
          autoRestart = (case Channel_snapshot process of
                           None \<Rightarrow> False
                         | Some channel \<Rightarrow> stillInMap \<and> AutoRestart channel);
          outputDir = outputDirOf m (ChannelID process)
      in if \<not> stillInMap then (Returned, m1, RemoveAll outputDir w)
         else if uptime < minUptimeForRestart then
           (let w1 = RemoveAll outputDir w in
            case Channel_snapshot process of
              None \<Rightarrow> (Returned, m1, w1)
            | Some channel \<Rightarrow> (Returned, m1, report_status m1 (ChannelID process) ChannelStatusStopped w1))
         else
           (case Channel_snapshot process of
              None \<Rightarrow> (Returned, m1, RemoveAll outputDir w)
            | Some channel \<Rightarrow>
                if autoRestart then (RestartPending channel, m1, w)
                else (Returned, m1, RemoveAll outputDir w)))"

definition watchProcess_resume :: "Process \<Rightarrow> Channel \<Rightarrow> ProcessManager \<Rightarrow> world \<Rightarrow> ProcessManager \<times> world" where
  "watchProcess_resume process channel m w =
     (let outputDir = outputDirOf m (ChannelID process);
          shouldRestart = (map_of (processes m) (ChannelID process) \<noteq> None)
      in if \<not> shouldRestart then (m, RemoveAll outputDir w)
         else
           (case Start channel m w of
              (Some restartErr, m1, w1) \<Rightarrow>
                (m1, report_status m1 (ChannelID process) ChannelStatusError (RemoveAll outputDir w1))
            | (None, m1, w1) \<Rightarrow> (m1, w1)))"

definition watchProcess :: "Process \<Rightarrow> ProcessManager \<Rightarrow> world \<Rightarrow> ProcessManager \<times> world" where
  "watchProcess process m w =
     (case watchProcess_exit process m w of
        (Returned, m1, w1) \<Rightarrow> (m1, w1)
      | (RestartPending channel, m1, w1) \<Rightarrow>
          watchProcess_resume process channel m1 (Sleep (2 * second) w1))"

text \<open>
  The shape of a well-formed table: no key occurs twice and every entry is stored under
  the channel id it carries.
\<close>

definition table_ok :: "(uuid \<times> Process) list \<Rightarrow> bool" where
  "table_ok al = (distinct (map fst al) \<and> list_all (\<lambda>(k, p). ChannelID p = k) al)"

text \<open>
  The states of the process manager that can arise: it is built by the constructor, gets
  its callback, and from then on every change of it is made by one of the operations
  above, each in a world the operation finds at that moment. The two parts of a watcher
  count as operations of their own, so that anything may happen during the pause.
\<close>

inductive reachable :: "ProcessManager \<Rightarrow> bool" where
  new: "reachable (NewProcessManager bin hls logo detectedNodes)"
| callback: "reachable m \<Longrightarrow> reachable (SetStatusCallback cb m)"
| start: "reachable m \<Longrightarrow> reachable (fst (snd (Start channel m w)))"
| stop: "reachable m \<Longrightarrow> reachable (fst (snd (Stop channelID m w)))"
| restart: "reachable m \<Longrightarrow> reachable (fst (snd (Restart channelID m w)))"
| watch_exit: "reachable m \<Longrightarrow> reachable (fst (snd (watchProcess_exit process m w)))"
| watch_resume: "reachable m \<Longrightarrow> reachable (fst (watchProcess_resume process channel m w))"

section \<open>Channel service (application/channel_service.go)\<close>

text \<open>
  The service holds the repository and the transcoder; its state is the process manager
  together with the world. The status callback installed by \<open>main\<close> is
  \<open>channelRepo.UpdateStatus\<close>.
\<close>

type_synonym state = "ProcessManager \<times> world"

definition StartChannel :: "uuid \<Rightarrow> state \<Rightarrow> error option \<times> state" where
  "StartChannel cid st =
     (case st of (m, w) \<Rightarrow>
        (case GetByID cid w of
           Inl err \<Rightarrow> (Some ErrChannelNotFound, m, w)
         | Inr channel \<Rightarrow>
             if IsRunning m cid then (None, m, snd (UpdateStatus cid ChannelStatusRunning w))
             else
               (case UpdateStatus cid ChannelStatusStarting w of
                  (Some err, w1) \<Rightarrow> (Some err, m, w1)
                | (None, w1) \<Rightarrow>
                    (case Start channel m w1 of
                       (Some err, m2, w2) \<Rightarrow> (Some err, m2, snd (UpdateStatus cid ChannelStatusError w2))
                     | (None, m2, w2) \<Rightarrow>
                         (case UpdateStatus cid ChannelStatusRunning w2 of
                            (r, w3) \<Rightarrow> (r, m2, w3))))))"

definition StopChannel :: "uuid \<Rightarrow> state \<Rightarrow> error option \<times> state" where
  "StopChannel cid st =
     (case st of (m, w) \<Rightarrow>
        (case GetByID cid w of
           Inl err \<Rightarrow> (Some ErrChannelNotFound, m, w)
         | Inr channel \<Rightarrow>
             if \<not> IsRunning m cid then (None, m, snd (UpdateStatus cid ChannelStatusStopped w))
             else
               (case UpdateStatus cid ChannelStatusStopping w of
                  (Some err, w1) \<Rightarrow> (Some err, m, w1)
                | (None, w1) \<Rightarrow>
                    (case Stop cid m w1 of
                       (Some err, m2, w2) \<Rightarrow> (Some err, m2, snd (UpdateStatus cid ChannelStatusError w2))
                     | (None, m2, w2) \<Rightarrow>
                         (case UpdateStatus cid ChannelStatusStopped w2 of
                            (r, w3) \<Rightarrow> (r, m2, w3))))))"

definition RestartChannel :: "uuid \<Rightarrow> state \<Rightarrow> error option \<times> state" where
  "RestartChannel cid st =
     (case st of (m, w) \<Rightarrow>
        (case GetByID cid w of
           Inl err \<Rightarrow> (Some ErrChannelNotFound, m, w)
         | Inr channel \<Rightarrow>
             if IsRunning m cid then
               (case StopChannel cid (m, w) of
                  (Some err, m1, w1) \<Rightarrow>
                    StartChannel cid (m1, Sleep (500 * millisecond) (snd (UpdateStatus cid ChannelStatusError w1)))
                | (None, m1, w1) \<Rightarrow> StartChannel cid (m1, Sleep (500 * millisecond) w1))
             else StartChannel cid (m, w)))"

definition DeleteChannel :: "uuid \<Rightarrow> state \<Rightarrow> error option \<times> state" where
  "DeleteChannel cid st =
     (case st of (m, w) \<Rightarrow>
        (case GetByID cid w of
           Inl err \<Rightarrow> (Some ErrChannelNotFound, m, w)
         | Inr channel \<Rightarrow>
             if IsRunning m cid then
               (case Stop cid m w of
                  (r, m1, w1) \<Rightarrow>
                    (case Delete cid (Sleep (200 * millisecond) w1) of (r2, w2) \<Rightarrow> (r2, m1, w2)))
             else (case Delete cid w of (r2, w2) \<Rightarrow> (r2, m, w2))))"

subsection \<open>Batch operations\<close>

text \<open>
  \<open>batchProcess\<close> starts \<open>concurrentLimit\<close> workers that take the ids from the
  \<open>jobs\<close> channel in input order, run \<open>processFunc\<close> and send the outcome to the
  \<open>results\<close> channel; the collecting loop receives exactly \<open>len(ids)\<close> outcomes and
  appends each to \<open>Success\<close> or \<open>Failed\<close>. Which of the jobs in flight finishes next
  is decided by the Go scheduler: here by \<open>sched\<close>, a list of choices, one per
  completion (a missing choice is 0). A job takes effect on the state when it completes.
  With no job in flight and outcomes still expected the receive blocks for ever: the
  result is \<open>None\<close>. After every completion \<open>i\<close> with \<open>i > 0\<close> and
  \<open>i % concurrentLimit == 0\<close> the loop sleeps.
\<close>

record BatchError =
  ChannelID_failed :: uuid
  Error_failed :: error

record BatchResult =
  Success :: "uuid list"
  Failed :: "BatchError list"

definition record_job :: "uuid \<Rightarrow> error option \<Rightarrow> BatchResult \<Rightarrow> BatchResult" where
  "record_job cid err result =
     (case err of
        Some e \<Rightarrow> result\<lparr>Failed := Failed result @ [\<lparr>ChannelID_failed = cid, Error_failed = e\<rparr>]\<rparr>
      | None \<Rightarrow> result\<lparr>Success := Success result @ [cid]\<rparr>)"

definition in_flight :: "nat \<Rightarrow> uuid list \<Rightarrow> uuid list \<Rightarrow> uuid list \<times> uuid list" where
  "in_flight concurrentLimit running waiting =
     (running @ take (concurrentLimit - length running) waiting,
      drop (concurrentLimit - length running) waiting)"

primrec collect ::
  "nat \<Rightarrow> nat \<Rightarrow> nat list \<Rightarrow> (uuid \<Rightarrow> state \<Rightarrow> error option \<times> state) \<Rightarrow> nat \<Rightarrow> int \<Rightarrow>
   uuid list \<Rightarrow> uuid list \<Rightarrow> BatchResult \<Rightarrow> state \<Rightarrow> (BatchResult \<times> state) option" where
  "collect 0 i sched processFunc concurrentLimit delay running waiting result st = Some (result, st)"
| "collect (Suc n) i sched processFunc concurrentLimit delay running waiting result st =
     (case in_flight concurrentLimit running waiting of
        (running', waiting') \<Rightarrow>
          if running' = [] then None
          else
            (let k = (case sched of [] \<Rightarrow> 0 | c # _ \<Rightarrow> c mod length running');
                 cid = running' ! k;
                 (err, st1) = processFunc cid st;
                 st2 = (if i > 0 \<and> i mod concurrentLimit = 0
                        then (fst st1, Sleep delay (snd st1)) else st1)
             in collect n (Suc i) (tl sched) processFunc concurrentLimit delay
                  (take k running' @ drop (Suc k) running') waiting'
                  (record_job cid err result) st2))"

definition batchProcess ::
  "nat list \<Rightarrow> uuid list \<Rightarrow> (uuid \<Rightarrow> state \<Rightarrow> error option \<times> state) \<Rightarrow> nat \<Rightarrow> int \<Rightarrow>
   state \<Rightarrow> (BatchResult \<times> state) option" where
  "batchProcess sched ids processFunc concurrentLimit delayBetweenBatches st =
     (if ids = [] then Some (\<lparr>Success = [], Failed = []\<rparr>, st)
      else collect (length ids) 0 sched processFunc concurrentLimit delayBetweenBatches
             [] ids \<lparr>Success = [], Failed = []\<rparr> st)"


definition BatchStopChannels :: "nat list \<Rightarrow> uuid list \<Rightarrow> state \<Rightarrow> (BatchResult \<times> state) option" where
  "BatchStopChannels sched ids st = batchProcess sched ids StopChannel 5 (100 * millisecond) st"








section \<open>Settings (settings_repository.go, settings service and handler)\<close>

text \<open>
  The \<open>system\<close> row holds a JSON object. \<open>GetSystemSettings\<close> answers with the
  hard-coded defaults whenever the row cannot be read. \<open>UpdateSystemSettings\<close> upserts
  the row.
\<close>

definition default_document :: "(string \<times> json) list" where
  "default_document =
     [(''max_channels'', JNumber 80), (''segment_time'', JNumber 3),
      (''playlist_size'', JNumber 6), (''log_retention'', JNumber 1),
      (''default_preset'', JString ''veryfast''), (''default_bitrate'', JString ''3500k''),
      (''default_resolution'', JString ''1920x1080''), (''default_profile'', JString ''high''),
      (''default_crf'', JNumber 23), (''default_maxrate'', JString ''3800k''),
      (''default_bufsize'', JString ''7600k''), (''use_ramdisk'', JBool True),
      (''threads_per_process'', JNumber 1)]"

definition GetSystemSettings :: "world \<Rightarrow> error + (string \<times> json) list" where
  "GetSystemSettings w =
     (case db_error w of
        Some e \<Rightarrow> Inr default_document
      | None \<Rightarrow> (case settings_row w of None \<Rightarrow> Inr default_document | Some doc \<Rightarrow> Inr doc))"

definition UpdateSystemSettings :: "(string \<times> json) list \<Rightarrow> world \<Rightarrow> error option \<times> world" where
  "UpdateSystemSettings doc w =
     (case db_error w of
        Some e \<Rightarrow> (Some (ErrDatabase e), w)
      | None \<Rightarrow> (None, w\<lparr>settings_row := Some doc\<rparr>))"

record Settings =
  MaxChannels :: int
  SegmentTime :: int
  PlaylistSize :: int
  LogRetention :: int
  DefaultPreset :: string
  DefaultBitrate :: string
  DefaultResolution :: string
  DefaultProfile :: string
  DefaultCRF :: int
  DefaultMaxrate :: string
  DefaultBufsize :: string

definition int_setting :: "(string \<times> json) list \<Rightarrow> string \<Rightarrow> int \<Rightarrow> int" where
  "int_setting doc key dflt = (case map_of doc key of Some (JNumber v) \<Rightarrow> v | _ \<Rightarrow> dflt)"

definition string_setting :: "(string \<times> json) list \<Rightarrow> string \<Rightarrow> string \<Rightarrow> string" where
  "string_setting doc key dflt = (case map_of doc key of Some (JString v) \<Rightarrow> v | _ \<Rightarrow> dflt)"

definition GetSettings :: "world \<Rightarrow> error + Settings" where
  "GetSettings w =
     (case GetSystemSettings w of
        Inl err \<Rightarrow> Inl err
      | Inr doc \<Rightarrow>
          Inr \<lparr>MaxChannels = int_setting doc ''max_channels'' 80,
               SegmentTime = int_setting doc ''segment_time'' 3,
               PlaylistSize = int_setting doc ''playlist_size'' 6,
               LogRetention = int_setting doc ''log_retention'' 1,
               DefaultPreset = string_setting doc ''default_preset'' ''veryfast'',
               DefaultBitrate = string_setting doc ''default_bitrate'' ''3500k'',
               DefaultResolution = string_setting doc ''default_resolution'' ''1920x1080'',
               DefaultProfile = string_setting doc ''default_profile'' ''high'',
               DefaultCRF = int_setting doc ''default_crf'' 23,
               DefaultMaxrate = string_setting doc ''default_maxrate'' ''3800k'',
               DefaultBufsize = string_setting doc ''default_bufsize'' ''7600k''\<rparr>)"

text \<open>\<open>ListChannels\<close> of the channel service, then \<open>CheckRunningChannels\<close>.\<close>

definition ListChannels :: "world \<Rightarrow> error + Channel list" where
  "ListChannels w = GetAll w"

definition CheckRunningChannels :: "world \<Rightarrow> error option" where
  "CheckRunningChannels w =
     (case ListChannels w of
        Inl err \<Rightarrow> Some err
      | Inr channels \<Rightarrow>
          (case find (\<lambda>channel. Status channel = ChannelStatusRunning) channels of
             Some channel \<Rightarrow> Some ErrChannelsRunning
           | None \<Rightarrow> None))"

text \<open>
  The request body after \<open>BodyParser\<close>: every field is a pointer, nil when absent.
  \<open>UpdateSettings\<close> checks for running channels, reads the current settings, validates
  and applies the fields that are present in the order of the source, and only then
  writes the document. The texts of the validation errors are abbreviated.
\<close>

record UpdateSettingsRequest =
  req_MaxChannels :: "int option"
  req_SegmentTime :: "int option"
  req_PlaylistSize :: "int option"
  req_LogRetention :: "int option"
  req_DefaultPreset :: "string option"
  req_DefaultBitrate :: "string option"
  req_DefaultResolution :: "string option"
  req_DefaultProfile :: "string option"
  req_DefaultCRF :: "int option"
  req_DefaultMaxrate :: "string option"
  req_DefaultBufsize :: "string option"

definition ranged :: "int option \<Rightarrow> int \<Rightarrow> int \<Rightarrow> string \<Rightarrow> int \<Rightarrow> error + int" where
  "ranged v lo hi msg cur =
     (case v of None \<Rightarrow> Inr cur
      | Some x \<Rightarrow> if x < lo \<or> x > hi then Inl (ErrValidation msg) else Inr x)"

definition one_of :: "string option \<Rightarrow> string list \<Rightarrow> string \<Rightarrow> string \<Rightarrow> error + string" where
  "one_of v valid msg cur =
     (case v of None \<Rightarrow> Inr cur
      | Some x \<Rightarrow> if x \<in> set valid then Inr x else Inl (ErrValidation (msg @ x)))"

definition validPresets :: "string list" where
  "validPresets = [''ultrafast'', ''superfast'', ''veryfast'', ''faster'', ''fast'', ''medium'',
                   ''slow'', ''slower'', ''veryslow'']"

definition validProfiles :: "string list" where
  "validProfiles = [''baseline'', ''main'', ''high'']"

definition apply_request :: "UpdateSettingsRequest \<Rightarrow> Settings \<Rightarrow> error + Settings" where
  "apply_request r cur =
     (case ranged (req_MaxChannels r) 1 1000 ''max_channels 1-1000'' (MaxChannels cur) of
        Inl e \<Rightarrow> Inl e | Inr maxChannels \<Rightarrow>
     (case ranged (req_SegmentTime r) 1 30 ''segment_time 1-30'' (SegmentTime cur) of
        Inl e \<Rightarrow> Inl e | Inr segmentTime \<Rightarrow>
     (case ranged (req_PlaylistSize r) 1 100 ''playlist_size 1-100'' (PlaylistSize cur) of
        Inl e \<Rightarrow> Inl e | Inr playlistSize \<Rightarrow>
     (case ranged (req_LogRetention r) 1 365 ''log_retention 1-365'' (LogRetention cur) of
        Inl e \<Rightarrow> Inl e | Inr logRetention \<Rightarrow>
     (case one_of (req_DefaultPreset r) validPresets ''preset: '' (DefaultPreset cur) of
        Inl e \<Rightarrow> Inl e | Inr defaultPreset \<Rightarrow>
     (case one_of (req_DefaultProfile r) validProfiles ''profile: '' (DefaultProfile cur) of
        Inl e \<Rightarrow> Inl e | Inr defaultProfile \<Rightarrow>
     (case ranged (req_DefaultCRF r) 0 51 ''crf 0-51'' (DefaultCRF cur) of
        Inl e \<Rightarrow> Inl e | Inr defaultCRF \<Rightarrow>
        Inr \<lparr>MaxChannels = maxChannels, SegmentTime = segmentTime, PlaylistSize = playlistSize,
             LogRetention = logRetention, DefaultPreset = defaultPreset,
             DefaultBitrate = (case req_DefaultBitrate r of None \<Rightarrow> DefaultBitrate cur | Some x \<Rightarrow> x),
             DefaultResolution =
               (case req_DefaultResolution r of None \<Rightarrow> DefaultResolution cur | Some x \<Rightarrow> x),
             DefaultProfile = defaultProfile, DefaultCRF = defaultCRF,
             DefaultMaxrate = (case req_DefaultMaxrate r of None \<Rightarrow> DefaultMaxrate cur | Some x \<Rightarrow> x),
             DefaultBufsize = (case req_DefaultBufsize r of None \<Rightarrow> DefaultBufsize cur | Some x \<Rightarrow> x)\<rparr>
     )))))))"

definition document_of :: "Settings \<Rightarrow> (string \<times> json) list" where
  "document_of s =
     [(''max_channels'', JNumber (MaxChannels s)), (''segment_time'', JNumber (SegmentTime s)),
      (''playlist_size'', JNumber (PlaylistSize s)), (''log_retention'', JNumber (LogRetention s)),
      (''default_preset'', JString (DefaultPreset s)), (''default_bitrate'', JString (DefaultBitrate s)),
      (''default_resolution'', JString (DefaultResolution s)),
      (''default_profile'', JString (DefaultProfile s)), (''default_crf'', JNumber (DefaultCRF s)),
      (''default_maxrate'', JString (DefaultMaxrate s)),
      (''default_bufsize'', JString (DefaultBufsize s))]"

definition UpdateSettings :: "UpdateSettingsRequest \<Rightarrow> world \<Rightarrow> (error + Settings) \<times> world" where
  "UpdateSettings r w =
     (case CheckRunningChannels w of
        Some err \<Rightarrow> (Inl err, w)
      | None \<Rightarrow>
          (case GetSettings w of
             Inl err \<Rightarrow> (Inl err, w)
           | Inr current \<Rightarrow>
               (case apply_request r current of
                  Inl err \<Rightarrow> (Inl err, w)
                | Inr updated \<Rightarrow>
                    (case UpdateSystemSettings (document_of updated) w of
                       (Some err, w1) \<Rightarrow> (Inl (ErrSaveSettings err), w1)
                     | (None, w1) \<Rightarrow> (Inr updated, w1)))))"

text \<open>
  \<open>SettingsHandler.Update\<close>: the HTTP status it answers with and the world it leaves. The
  body is \<open>None\<close> when \<open>BodyParser\<close> fails.
\<close>

abbreviation StatusOK :: nat where "StatusOK \<equiv> 200"
abbreviation StatusBadRequest :: nat where "StatusBadRequest \<equiv> 400"
abbreviation StatusUnauthorized :: nat where "StatusUnauthorized \<equiv> 401"
abbreviation StatusForbidden :: nat where "StatusForbidden \<equiv> 403"
abbreviation StatusNotFound :: nat where "StatusNotFound \<equiv> 404"
abbreviation StatusConflict :: nat where "StatusConflict \<equiv> 409"
abbreviation StatusInternalServerError :: nat where "StatusInternalServerError \<equiv> 500"

definition SettingsHandler_Update :: "UpdateSettingsRequest option \<Rightarrow> world \<Rightarrow> nat \<times> world" where
  "SettingsHandler_Update body w =
     (case body of
        None \<Rightarrow> (StatusBadRequest, w)
      | Some req \<Rightarrow>
          (case CheckRunningChannels w of
             Some err \<Rightarrow> (StatusConflict, w)
           | None \<Rightarrow>
               (case UpdateSettings req w of
                  (Inl err, w1) \<Rightarrow> (StatusInternalServerError, w1)
                | (Inr settings, w1) \<Rightarrow> (StatusOK, w1))))"

section \<open>HTTP control plane (middleware/auth.go, routes.go)\<close>

text \<open>
  \<open>type UserRole string\<close>. \<open>roleHierarchy\<close> is a Go map literal: a role that is not a
  key reads as 0.
\<close>

type_synonym UserRole = string

abbreviation UserRoleAdmin :: UserRole where "UserRoleAdmin \<equiv> ''admin''"
abbreviation UserRoleOperator :: UserRole where "UserRoleOperator \<equiv> ''operator''"
abbreviation UserRoleViewer :: UserRole where "UserRoleViewer \<equiv> ''viewer''"

definition roleHierarchy :: "UserRole \<Rightarrow> int" where
  "roleHierarchy role =
     (case map_of [(UserRoleViewer, 1), (UserRoleOperator, 2), (UserRoleAdmin, 3)] role of
        None \<Rightarrow> 0 | Some rank \<Rightarrow> rank)"

text \<open>
  A middleware either answers with a status or calls \<open>c.Next()\<close>. \<open>Authenticate\<close>
  gets the \<open>Authorization\<close> header (empty when absent) and the token validator of the
  auth service, which stands for the JWT library; on success it stores the role of the
  claims in the request locals. \<open>RequireRole\<close> reads the role from the locals.
\<close>

datatype 'a middleware_result = Respond nat | Next 'a

definition TrimPrefix :: "string \<Rightarrow> string \<Rightarrow> string" where
  "TrimPrefix s pre = (if take (length pre) s = pre then drop (length pre) s else s)"

definition Authenticate :: "(string \<Rightarrow> UserRole option) \<Rightarrow> string \<Rightarrow> UserRole middleware_result" where
  "Authenticate ValidateToken authHeader =
     (if authHeader = [] then Respond StatusUnauthorized
      else
        (let token = TrimPrefix authHeader ''Bearer '' in
         if token = authHeader then Respond StatusUnauthorized
         else
           (case ValidateToken token of
              None \<Rightarrow> Respond StatusUnauthorized
            | Some role \<Rightarrow> Next role)))"

definition RequireRole :: "UserRole \<Rightarrow> UserRole option \<Rightarrow> unit middleware_result" where
  "RequireRole requiredRole user_role =
     (case user_role of
        None \<Rightarrow> Respond StatusUnauthorized
      | Some role \<Rightarrow>
          if roleHierarchy role < roleHierarchy requiredRole then Respond StatusForbidden
          else Next ())"

text \<open>
  The routes \<open>SetupRoutes\<close> registers on the group behind \<open>Authenticate\<close>, in the
  order of the source, each with the role its \<open>RequireRole\<close> middleware asks for
  (\<open>None\<close>: no such middleware). Paths are relative to \<open>/api/v1\<close>.
\<close>

datatype http_method = GET | POST | PUT | DELETE

definition protected_routes :: "((http_method \<times> string) \<times> UserRole option) list" where
  "protected_routes =
     [((GET, ''/auth/me''), None),
      ((GET, ''/channels/''), None),
      ((POST, ''/channels/batch/start''), Some UserRoleOperator),
      ((POST, ''/channels/batch/stop''), Some UserRoleOperator),
      ((POST, ''/channels/batch/restart''), Some UserRoleOperator),
      ((POST, ''/channels/batch/delete''), Some UserRoleAdmin),
      ((GET, ''/channels/metrics''), None),
      ((GET, ''/channels/:id''), None),
      ((GET, ''/channels/:id/metrics''), None),
      ((GET, ''/channels/:id/logs''), None),
      ((POST, ''/channels/''), Some UserRoleOperator),
      ((PUT, ''/channels/:id''), Some UserRoleOperator),
      ((POST, ''/channels/:id/start''), Some UserRoleOperator),
      ((POST, ''/channels/:id/stop''), Some UserRoleOperator),
      ((POST, ''/channels/:id/restart''), Some UserRoleOperator),
      ((DELETE, ''/channels/:id''), Some UserRoleAdmin),
      ((POST, ''/uploads/logo''), Some UserRoleOperator),
      ((DELETE, ''/uploads/logo/:filename''), Some UserRoleOperator),
      ((GET, ''/settings/''), Some UserRoleAdmin),
      ((PUT, ''/settings/''), Some UserRoleAdmin),
      ((GET, ''/system/info''), None)]"

text \<open>
  A request to a protected route runs \<open>Authenticate\<close>, then the route's
  \<open>RequireRole\<close> if it has one, then the handler (\<open>Next ()\<close>). A route that is
  not registered is answered with 404 after authentication.
\<close>

definition serve :: "(string \<Rightarrow> UserRole option) \<Rightarrow> http_method \<times> string \<Rightarrow> string \<Rightarrow> unit middleware_result" where
  "serve ValidateToken route authHeader =
     (case Authenticate ValidateToken authHeader of
        Respond status \<Rightarrow> Respond status
      | Next role \<Rightarrow>
          (case map_of protected_routes route of
             None \<Rightarrow> Respond StatusNotFound
           | Some None \<Rightarrow> Next ()
           | Some (Some requiredRole) \<Rightarrow> RequireRole requiredRole (Some role)))"

text \<open>
  The rank a route asks for: that of the role of its \<open>RequireRole\<close>, and 0 when it has
  none, so that every authenticated user passes.
\<close>

definition required_rank :: "http_method \<times> string \<Rightarrow> int" where
  "required_rank route =
     (case map_of protected_routes route of
        Some (Some requiredRole) \<Rightarrow> roleHierarchy requiredRole
      | _ \<Rightarrow> 0)"

text \<open>
  The role gating in the words of the specification, to compare the route table with:
  the operations reserved to an admin and those that need at least an operator. The
  admin list has \<open>GET /settings\<close> in it, which the route table requires and the
  specification's sentence on viewers does not mention.
\<close>

definition spec_admin_routes :: "(http_method \<times> string) list" where
  "spec_admin_routes =
     [(DELETE, ''/channels/:id''), (POST, ''/channels/batch/delete''),
      (PUT, ''/settings/''), (GET, ''/settings/'')]"

definition spec_operator_routes :: "(http_method \<times> string) list" where
  "spec_operator_routes =
     [(POST, ''/channels/''), (PUT, ''/channels/:id''),
      (POST, ''/channels/:id/start''), (POST, ''/channels/:id/stop''),
      (POST, ''/channels/:id/restart''),
      (POST, ''/channels/batch/start''), (POST, ''/channels/batch/stop''),
      (POST, ''/channels/batch/restart''),
      (POST, ''/uploads/logo''), (DELETE, ''/uploads/logo/:filename'')]"

section \<open>Metrics fetch (process.go)\<close>

text \<open>
  The memory half of \<open>getProcessStats\<close>: the resident set size read from the
  \<open>VmRSS:\<close> line of \<open>/proc/<pid>/status\<close>, in bytes, as an \<open>int64\<close> (the
  multiplication wraps). The CPU half is floating point arithmetic and is left out.
  \<open>strings.Fields\<close> splits at runs of white space, \<open>strconv.ParseInt(s, 10, 64)\<close>
  accepts an optional sign and decimal digits within the \<open>int64\<close> range, the scanner
  yields the lines of the file.
\<close>

definition isSpace :: "char \<Rightarrow> bool" where
  "isSpace c = (c \<in> set [CHR '' '', CHR 0x09, CHR 0x0A, CHR 0x0B, CHR 0x0C, CHR 0x0D])"

fun Fields_acc :: "string \<Rightarrow> string \<Rightarrow> string list" where
  "Fields_acc cur [] = (if cur = [] then [] else [cur])"
| "Fields_acc cur (c # cs) =
     (if isSpace c then (if cur = [] then Fields_acc [] cs else cur # Fields_acc [] cs)
      else Fields_acc (cur @ [c]) cs)"

definition Fields :: "string \<Rightarrow> string list" where
  "Fields s = Fields_acc [] s"

fun lines_acc :: "string \<Rightarrow> string \<Rightarrow> string list" where
  "lines_acc cur [] = (if cur = [] then [] else [cur])"
| "lines_acc cur (c # cs) =
     (if c = CHR 0x0A then cur # lines_acc [] cs else lines_acc (cur @ [c]) cs)"

definition dropCR :: "string \<Rightarrow> string" where
  "dropCR l = (if l \<noteq> [] \<and> last l = CHR 0x0D then butlast l else l)"

definition scan_lines :: "string \<Rightarrow> string list" where
  "scan_lines s = map dropCR (lines_acc [] s)"

definition HasPrefix :: "string \<Rightarrow> string \<Rightarrow> bool" where
  "HasPrefix s pre = (take (length pre) s = pre)"

definition isDigit :: "char \<Rightarrow> bool" where
  "isDigit c = ((48::nat) \<le> of_char c \<and> of_char c \<le> (57::nat))"

definition digits_value :: "string \<Rightarrow> int" where
  "digits_value ds = foldl (\<lambda>acc c. 10 * acc + (of_char c - 48)) 0 ds"

definition ParseInt :: "string \<Rightarrow> int option" where
  "ParseInt s =
     (let neg = (s \<noteq> [] \<and> hd s = CHR ''-'');
          ds = (if s \<noteq> [] \<and> (hd s = CHR ''-'' \<or> hd s = CHR ''+'') then tl s else s)
      in if ds = [] \<or> \<not> list_all isDigit ds then None
         else
           (let v = (if neg then - digits_value ds else digits_value ds) in
            if v < - (2 ^ 63) \<or> v > 2 ^ 63 - 1 then None else Some v))"

definition wrap64 :: "int \<Rightarrow> int" where
  "wrap64 x = (x + 2 ^ 63) mod 2 ^ 64 - 2 ^ 63"

definition rss_bytes :: "string option \<Rightarrow> int" where
  "rss_bytes statusData =
     (case statusData of
        None \<Rightarrow> 0
      | Some text \<Rightarrow>
          (case find (\<lambda>line. HasPrefix line ''VmRSS:'') (scan_lines text) of
             None \<Rightarrow> 0
           | Some line \<Rightarrow>
               (case Fields line of
                  f0 # f1 # _ \<Rightarrow> (case ParseInt f1 of None \<Rightarrow> 0 | Some val \<Rightarrow> wrap64 (val * 1024))
                | _ \<Rightarrow> 0)))"

definition getProcessStats :: "nat \<Rightarrow> world \<Rightarrow> int" where
  "getProcessStats pid w =
     (let memoryUsage = rss_bytes (procfs_status w pid) in
      if memoryUsage = 0 then 100 * 1024 * 1024 else memoryUsage)"

text \<open>
  \<open>TranscoderProcess\<close>, without its floating point fields, and the two fetches.
  \<open>GetAllProcesses\<close> skips entries whose child is not initialised.
\<close>

record TranscoderProcess =
  ChannelID_metrics :: uuid
  PID :: nat
  StartedAt_metrics :: int
  MemoryUsage :: int
  InputBitrate :: int
  OutputBitrate :: int
  DroppedFrames :: int

definition TrimSuffix :: "string \<Rightarrow> string \<Rightarrow> string" where
  "TrimSuffix s suf =
     (if length suf \<le> length s \<and> drop (length s - length suf) s = suf
      then take (length s - length suf) s else s)"

definition outputBitrateOf :: "string \<Rightarrow> int" where
  "outputBitrateOf bitrate =
     (if bitrate = [] then 0
      else (case ParseInt (TrimSuffix (TrimSuffix bitrate ''k'') ''M'') of None \<Rightarrow> 0 | Some val \<Rightarrow> val))"

definition metrics_of :: "uuid \<Rightarrow> nat \<Rightarrow> Process \<Rightarrow> world \<Rightarrow> TranscoderProcess" where
  "metrics_of channelID pid process w =
     \<lparr>ChannelID_metrics = channelID, PID = pid, StartedAt_metrics = StartedAt process,
      MemoryUsage = getProcessStats pid w, InputBitrate = 0,
      OutputBitrate = outputBitrateOf (Metrics_Bitrate process),
      DroppedFrames = Metrics_DropFrames process\<rparr>"

definition GetProcess :: "uuid \<Rightarrow> ProcessManager \<Rightarrow> world \<Rightarrow> error + TranscoderProcess" where
  "GetProcess channelID m w =
     (case map_of (processes m) channelID of
        None \<Rightarrow> Inl (ErrNotRunning channelID)
      | Some process \<Rightarrow>
          (case Pid process of
             None \<Rightarrow> Inl (ErrProcessNotInitialized channelID)
           | Some pid \<Rightarrow> Inr (metrics_of channelID pid process w)))"

definition GetAllProcesses :: "ProcessManager \<Rightarrow> world \<Rightarrow> TranscoderProcess list" where
  "GetAllProcesses m w =
     concat (map (\<lambda>(channelID, process).
                    case Pid process of None \<Rightarrow> [] | Some pid \<Rightarrow> [metrics_of channelID pid process w])
                 (processes m))"

section \<open>Example states\<close>

text \<open>
  A small installation used to run the operations: two channels in the store, one of them
  with a logo file that does not exist, auto restart on for both (the default of
  \<open>NewChannel\<close>), a working encoder binary, and the process manager as \<open>main\<close> builds
  it, with \<open>channelRepo.UpdateStatus\<close> as status callback.
\<close>

definition demo_channel :: Channel where
  "demo_channel =
     \<lparr>ID = UUID ''c1'', Name = ''demo'', SourceURL = ''http://src/a.m3u8'', Logo = None,
      OutputConfig = None, Status = ChannelStatusStopped, AutoRestart = True,
      CreatedAt = 1, UpdatedAt = 1\<rparr>"

definition logo_channel :: Channel where
  "logo_channel =
     \<lparr>ID = UUID ''c2'', Name = ''branded'', SourceURL = ''http://src/b.m3u8'',
      Logo = Some \<lparr>Path = ''missing.png'', X = 10, Y = 10, Width = 100, Height = 50\<rparr>,
      OutputConfig = None, Status = ChannelStatusStopped, AutoRestart = True,
      CreatedAt = 2, UpdatedAt = 2\<rparr>"

definition demo_world :: world where
  "demo_world =
     \<lparr>dirs = {}, mkdir_error = None,
      stat = (\<lambda>p. if p = ''/logos/ok.png'' then StatOk else StatNotExist),
      pipe_error = None, exec_error = None, numactl_available = False, next_pid = 100,
      alive = {}, survives_sigkill = {}, procfs_status = (\<lambda>pid. None), now = 0, events = [],
      rows = [demo_channel, logo_channel], db_error = None, settings_row = None\<rparr>"

definition demo_manager :: ProcessManager where
  "demo_manager = SetStatusCallback UpdateStatus (NewProcessManager ''/usr/bin/ffmpeg'' ''/hls'' ''/logos'' 1)"

definition demo_process :: Process where
  "demo_process =
     \<lparr>ChannelID = UUID ''c1'', Channel_snapshot = Some demo_channel, Pid = Some 100,
      StartedAt = 0, Metrics_Bitrate = [], Metrics_DropFrames = 0\<rparr>"

text \<open>The same installation with the demo channel running for a minute.\<close>

definition running_manager :: ProcessManager where
  "running_manager = demo_manager\<lparr>processes := [(UUID ''c1'', demo_process)]\<rparr>"

definition running_world :: world where
  "running_world =
     demo_world\<lparr>dirs := {''/hls/c1''}, next_pid := 101, alive := {100}, now := 60 * second,
                rows := [demo_channel\<lparr>Status := ChannelStatusRunning\<rparr>, logo_channel]\<rparr>"

text \<open>The child of the running demo channel has just exited, a minute after its spawn.\<close>

definition crashed_world :: world where
  "crashed_world = running_world\<lparr>alive := {}\<rparr>"

text \<open>A token validator that knows one token for each role.\<close>

definition demo_tokens :: "string \<Rightarrow> UserRole option" where
  "demo_tokens token =
     map_of [(''viewer-token'', UserRoleViewer), (''operator-token'', UserRoleOperator),
             (''admin-token'', UserRoleAdmin)] token"

text \<open>A settings update that only asks for a segment time of 4 s.\<close>

definition demo_request :: UpdateSettingsRequest where
  "demo_request =
     \<lparr>req_MaxChannels = None, req_SegmentTime = Some 4, req_PlaylistSize = None,
      req_LogRetention = None, req_DefaultPreset = None, req_DefaultBitrate = None,
      req_DefaultResolution = None, req_DefaultProfile = None, req_DefaultCRF = None,
      req_DefaultMaxrate = None, req_DefaultBufsize = None\<rparr>"

section \<open>Properties\<close>

subsection \<open>Unfolding rules and facts about the store\<close>

lemmas demo_defs = demo_channel_def logo_channel_def demo_world_def demo_manager_def
  demo_process_def running_manager_def running_world_def crashed_world_def
  SetStatusCallback_def NewProcessManager_def

lemmas manager_defs = Start_def Stop_def Restart_def watchProcess_def watchProcess_exit_def
  watchProcess_resume_def report_status_def RemoveAll_def MkdirAll_def Sleep_def outputDirOf_def
  filepath_Join_def filepath_IsAbs_def buildArgs_def resolveLogoPath_def input_args_def
  command_line_def getNextNUMANode_def terminate_def send_signal_def IsRunning_def

lemmas repo_defs = GetByID_def UpdateStatus_def GetAll_def Delete_def

lemmas parse_defs = rss_bytes_def scan_lines_def dropCR_def HasPrefix_def Fields_def isSpace_def
  ParseInt_def isDigit_def digits_value_def wrap64_def

lemma find_map_status:
  "find (\<lambda>c. ID c = cid) rs = Some ch \<Longrightarrow>
   find (\<lambda>c. ID c = cid) (map (\<lambda>c. if ID c = cid then c\<lparr>Status := s, UpdatedAt := t\<rparr> else c) rs)
     = Some (ch\<lparr>Status := s, UpdatedAt := t\<rparr>)"
  by (induction rs) (auto split: if_splits)

lemma GetByID_db_up: "GetByID cid w = Inr ch \<Longrightarrow> db_error w = None"
  by (auto simp: GetByID_def split: option.splits)

lemma GetByID_UpdateStatus:
  "GetByID cid w = Inr ch \<Longrightarrow>
   UpdateStatus cid s w = (None, snd (UpdateStatus cid s w)) \<and>
   GetByID cid (snd (UpdateStatus cid s w)) = Inr (ch\<lparr>Status := s, UpdatedAt := now w\<rparr>)"
  by (auto simp: GetByID_def UpdateStatus_def find_map_status split: option.splits)

lemma GetByID_RemoveAll [simp]: "GetByID cid (RemoveAll d w) = GetByID cid w"
  by (simp add: GetByID_def RemoveAll_def split: option.splits)

lemma UpdateStatus_frame:
  "dirs (snd (UpdateStatus cid s w)) = dirs w \<and> events (snd (UpdateStatus cid s w)) = events w
   \<and> next_pid (snd (UpdateStatus cid s w)) = next_pid w \<and> alive (snd (UpdateStatus cid s w)) = alive w
   \<and> now (snd (UpdateStatus cid s w)) = now w"
  by (simp add: UpdateStatus_def split: option.splits)

subsection \<open>The watcher\<close>

text \<open>
  Claim C2. A child that exits less than 10 s after its spawn, while the entry of its
  channel is still in the table (no explicit stop in between), is handled by the watcher
  without any restart: the watcher returns before the restart pause, nothing is spawned
  and nothing slept, the entry is gone, the output directory is removed and the row of
  the channel has status \<open>stopped\<close>. The auto restart flag is not among the
  assumptions. The status callback is the one \<open>main\<close> installs and the row of the
  channel can be read.
\<close>

theorem failed_to_start_is_stopped:
  assumes inmap: "map_of (processes m) (ChannelID p) \<noteq> None"
    and snap: "Channel_snapshot p = Some ch"
    and early: "now w - StartedAt p < minUptimeForRestart"
    and cb: "statusCallback m = Some UpdateStatus"
    and row: "GetByID (ChannelID p) w = Inr r"
  shows "fst (watchProcess_exit p m w) = Returned
     \<and> (\<exists>m' w' r'. watchProcess p m w = (m', w')
           \<and> GetByID (ChannelID p) w' = Inr r' \<and> Status r' = ChannelStatusStopped
           \<and> outputDirOf m (ChannelID p) \<notin> dirs w'
           \<and> next_pid w' = next_pid w \<and> events w' = events w
           \<and> map_of (processes m') (ChannelID p) = None)"
proof -
  let ?d = "outputDirOf m (ChannelID p)"
  let ?m' = "m\<lparr>processes := AList.delete (ChannelID p) (processes m)\<rparr>"
  let ?w' = "snd (UpdateStatus (ChannelID p) ChannelStatusStopped (RemoveAll ?d w))"
  have ex: "watchProcess_exit p m w = (Returned, ?m', ?w')"
    using inmap snap early cb by (simp add: watchProcess_exit_def report_status_def Let_def)
  hence wp: "watchProcess p m w = (?m', ?w')"
    by (simp add: watchProcess_def)
  have row': "GetByID (ChannelID p) (RemoveAll ?d w) = Inr r" using row by simp
  have g: "GetByID (ChannelID p) ?w'
             = Inr (r\<lparr>Status := ChannelStatusStopped, UpdatedAt := now (RemoveAll ?d w)\<rparr>)"
    using GetByID_UpdateStatus[OF row'] by simp
  have d: "?d \<notin> dirs ?w'"
    by (simp add: UpdateStatus_frame) (simp add: RemoveAll_def)
  have n: "next_pid ?w' = next_pid w \<and> events ?w' = events w"
    by (simp add: UpdateStatus_frame) (simp add: RemoveAll_def)
  have t: "map_of (processes ?m') (ChannelID p) = None"
    by (simp add: AList.delete_conv')
  from ex wp g d n t show ?thesis by simp
qed

text \<open>
  The demo channel, auto restart on, whose child exits 3 s after its spawn: the row ends
  as \<open>stopped\<close>, the directory is gone and no second pid was handed out.
\<close>

theorem failed_to_start_is_stopped_witness:
  "\<exists>m' w' r'. watchProcess demo_process running_manager (running_world\<lparr>now := 3 * second\<rparr>) = (m', w')
      \<and> GetByID (UUID ''c1'') w' = Inr r' \<and> Status r' = ChannelStatusStopped \<and> AutoRestart r'
      \<and> ''/hls/c1'' \<notin> dirs w' \<and> next_pid w' = 101 \<and> events w' = []
      \<and> map_of (processes m') (UUID ''c1'') = None"
proof -
  let ?w = "running_world\<lparr>now := 3 * second\<rparr>"
  have 1: "map_of (processes running_manager) (ChannelID demo_process) \<noteq> None"
    by (simp add: demo_defs)
  have 2: "Channel_snapshot demo_process = Some demo_channel" by (simp add: demo_defs)
  have 3: "now ?w - StartedAt demo_process < minUptimeForRestart" by (simp add: demo_defs)
  have 4: "statusCallback running_manager = Some UpdateStatus" by (simp add: demo_defs)
  have 5: "GetByID (ChannelID demo_process) ?w = Inr (demo_channel\<lparr>Status := ChannelStatusRunning\<rparr>)"
    by (simp add: demo_defs GetByID_def)
  from failed_to_start_is_stopped[OF 1 2 3 4 5]
  obtain m' w' r' where h: "watchProcess demo_process running_manager ?w = (m', w')"
     "GetByID (ChannelID demo_process) w' = Inr r'" "Status r' = ChannelStatusStopped"
     "outputDirOf running_manager (ChannelID demo_process) \<notin> dirs w'"
     "next_pid w' = next_pid ?w" "events w' = events ?w"
     "map_of (processes m') (ChannelID demo_process) = None" by blast
  have ar: "AutoRestart r'"
    using h(1,2) by (auto simp: demo_defs manager_defs repo_defs Let_def)
  have id: "ChannelID demo_process = UUID ''c1''" by (simp add: demo_defs)
  have od: "outputDirOf running_manager (UUID ''c1'') = ''/hls/c1''"
    by (simp add: demo_defs outputDirOf_def filepath_Join_def)
  have np: "next_pid ?w = 101" "events ?w = []" by (simp_all add: demo_defs)
  from h ar show ?thesis unfolding id od np by blast
qed

text \<open>
  What the watcher does when it reaches the restart branch: it has removed the entry of
  the channel itself before the pause, so the lookup after the pause finds nothing, and
  the watcher removes the directory and returns without calling \<open>Start\<close>.
\<close>

lemma watcher_restart_branch:
  assumes inmap: "map_of (processes m) (ChannelID p) \<noteq> None"
    and snap: "Channel_snapshot p = Some ch"
    and auto: "AutoRestart ch"
    and late: "minUptimeForRestart \<le> now w - StartedAt p"
  shows "watchProcess p m w =
           (m\<lparr>processes := AList.delete (ChannelID p) (processes m)\<rparr>,
            RemoveAll (outputDirOf m (ChannelID p)) (Sleep (2 * second) w))"
proof -
  have "watchProcess_exit p m w =
          (RestartPending ch, m\<lparr>processes := AList.delete (ChannelID p) (processes m)\<rparr>, w)"
    using assms by (simp add: watchProcess_exit_def Let_def)
  thus ?thesis
    by (simp add: watchProcess_def watchProcess_resume_def Let_def AList.delete_conv' outputDirOf_def)
qed

text \<open>
  Claim C1, run on the code. The demo channel has auto restart on, its entry is in the
  table and its child exits 60 s after the spawn; nothing else happens during the pause.
  The watcher does go to the restart pause and sleeps 2 s, but then no child is spawned:
  the table is empty, no pid was handed out, the only event is the sleep, the directory
  is removed, and the row of the channel still says \<open>running\<close>.
\<close>

theorem auto_restart_spawns_nothing:
  "map_of (processes running_manager) (UUID ''c1'') = Some demo_process
   \<and> AutoRestart demo_channel
   \<and> now crashed_world - StartedAt demo_process = 60 * second
   \<and> fst (watchProcess_exit demo_process running_manager crashed_world) = RestartPending demo_channel
   \<and> processes (fst (watchProcess demo_process running_manager crashed_world)) = []
   \<and> next_pid (snd (watchProcess demo_process running_manager crashed_world)) = next_pid crashed_world
   \<and> events (snd (watchProcess demo_process running_manager crashed_world)) = [EvSleep (2 * second)]
   \<and> alive (snd (watchProcess demo_process running_manager crashed_world)) = {}
   \<and> dirs (snd (watchProcess demo_process running_manager crashed_world)) = {}
   \<and> rows (snd (watchProcess demo_process running_manager crashed_world)) = rows crashed_world"
  by (simp add: demo_defs manager_defs Let_def)

subsection \<open>The process table\<close>

lemma list_all_update:
  "list_all P al \<Longrightarrow> P (k, v) \<Longrightarrow> list_all P (AList.update k v al)"
  by (induction al) auto

lemma list_all_delete:
  "list_all P al \<Longrightarrow> list_all P (AList.delete k al)"
  by (induction al) auto

lemma table_ok_update:
  "table_ok al \<Longrightarrow> ChannelID v = k \<Longrightarrow> table_ok (AList.update k v al)"
  by (simp add: table_ok_def AList.distinct_update list_all_update)

lemma table_ok_delete: "table_ok al \<Longrightarrow> table_ok (AList.delete k al)"
  by (simp add: table_ok_def AList.distinct_delete list_all_delete)

lemma Start_existing:
  "map_of (processes m) (ID ch) \<noteq> None \<Longrightarrow> Start ch m w = (Some (ErrAlreadyRunning (ID ch)), m, w)"
  by (simp add: Start_def)

lemma Start_failure_table:
  "Start ch m w = (Some e, m', w') \<Longrightarrow> processes m' = processes m"
  by (auto simp: Start_def Let_def command_line_def getNextNUMANode_def
           split: if_splits prod.splits option.splits sum.splits)

lemma Start_failure_world:
  "Start ch m w = (Some e, m', w') \<Longrightarrow>
   next_pid w' = next_pid w \<and> events w' = events w \<and> rows w' = rows w
   \<and> db_error w' = db_error w \<and> now w' = now w"
  by (auto simp: Start_def Let_def MkdirAll_def
           split: if_splits prod.splits option.splits sum.splits)

lemma Start_table_ok: "table_ok (processes m) \<Longrightarrow> table_ok (processes (fst (snd (Start ch m w))))"
  by (auto simp: Start_def Let_def command_line_def getNextNUMANode_def
           intro!: table_ok_update
           split: if_splits prod.splits option.splits sum.splits)

lemma Stop_table_ok: "table_ok (processes m) \<Longrightarrow> table_ok (processes (fst (snd (Stop c m w))))"
  by (auto simp: Stop_def Let_def table_ok_delete split: option.splits)

lemma Stop_result: "fst (Stop c m w) = None"
  by (simp add: Stop_def Let_def split: option.splits)

lemma Restart_table_ok: "table_ok (processes m) \<Longrightarrow> table_ok (processes (fst (snd (Restart c m w))))"
proof -
  assume ok: "table_ok (processes m)"
  show ?thesis
  proof (cases "map_of (processes m) c")
    case None thus ?thesis using ok by (simp add: Restart_def)
  next
    case (Some p)
    obtain r m1 w1 where s: "Stop c m w = (r, m1, w1)" by (cases "Stop c m w") auto
    have r: "r = None" using Stop_result[of c m w] s by simp
    have ok1: "table_ok (processes m1)" using Stop_table_ok[OF ok, of c w] s by simp
    show ?thesis using Some s r ok1 Start_table_ok[OF ok1]
      by (auto simp: Restart_def split: option.splits)
  qed
qed

lemma exit_table_ok:
  "table_ok (processes m) \<Longrightarrow> table_ok (processes (fst (snd (watchProcess_exit p m w))))"
  by (auto simp: watchProcess_exit_def Let_def table_ok_delete split: option.splits)

lemma resume_table_ok:
  "table_ok (processes m) \<Longrightarrow> table_ok (processes (fst (watchProcess_resume p ch m w)))"
  using Start_table_ok[of m ch w]
  by (auto simp: watchProcess_resume_def Let_def split: option.splits prod.splits)

lemma reachable_table_ok: "reachable m \<Longrightarrow> table_ok (processes m)"
proof (induction rule: reachable.induct)
  case (new bin hls logo detectedNodes)
  show ?case by (simp add: NewProcessManager_def table_ok_def)
next
  case (callback m cb)
  from callback.IH show ?case by (simp add: SetStatusCallback_def)
next
  case (start m channel w)
  from start.IH show ?case by (rule Start_table_ok)
next
  case (stop m channelID w)
  from stop.IH show ?case by (rule Stop_table_ok)
next
  case (restart m channelID w)
  from restart.IH show ?case by (rule Restart_table_ok)
next
  case (watch_exit m process w)
  from watch_exit.IH show ?case by (rule exit_table_ok)
next
  case (watch_resume m process channel w)
  from watch_resume.IH show ?case by (rule resume_table_ok)
qed

lemma distinct_one_key:
  "distinct (map fst al) \<Longrightarrow> length (filter (\<lambda>kp. fst kp = c) al) \<le> 1"
proof (induction al)
  case Nil thus ?case by simp
next
  case (Cons a al)
  show ?case
  proof (cases "fst a = c")
    case True
    hence "c \<notin> fst ` set al" using Cons.prems by auto
    hence "filter (\<lambda>kp. fst kp = c) al = []" by (auto simp: filter_empty_conv)
    thus ?thesis using True by simp
  next
    case False thus ?thesis using Cons by simp
  qed
qed

lemma table_ok_one:
  assumes "table_ok al"
  shows "length (filter (\<lambda>(k, p). k = c \<or> ChannelID p = c) al) \<le> 1"
proof -
  have "filter (\<lambda>(k, p). k = c \<or> ChannelID p = c) al = filter (\<lambda>kp. fst kp = c) al"
    using assms by (intro filter_cong) (auto simp: table_ok_def list_all_iff)
  thus ?thesis using assms distinct_one_key[of al c] by (simp add: table_ok_def)
qed

text \<open>
  Claim C3. In every state the process manager can reach, the table holds at most one
  entry that is stored under a given channel id or carries it, and \<open>Start\<close> for a
  channel that has an entry is rejected with the already-running error and changes
  neither the table nor the world. Every operation is one step here, as its critical
  section is under the supervisor lock; the interleaving of threads itself is not
  modelled.
\<close>

theorem one_live_process_per_channel:
  assumes "reachable m"
  shows "length (filter (\<lambda>(k, p). k = c \<or> ChannelID p = c) (processes m)) \<le> 1
       \<and> (IsRunning m (ID ch) \<longrightarrow> Start ch m w = (Some (ErrAlreadyRunning (ID ch)), m, w))"
  using table_ok_one[OF reachable_table_ok[OF assms]]
  by (simp add: IsRunning_def Start_def)

text \<open>
  The manager after the demo channel was started is reachable; it has one entry for the
  channel, and a second \<open>Start\<close> is rejected.
\<close>

theorem one_live_process_per_channel_witness:
  "reachable running_manager
   \<and> IsRunning running_manager (ID demo_channel)
   \<and> length (filter (\<lambda>(k, p). k = UUID ''c1'' \<or> ChannelID p = UUID ''c1'') (processes running_manager)) \<le> 1
   \<and> Start demo_channel running_manager running_world
       = (Some (ErrAlreadyRunning (UUID ''c1'')), running_manager, running_world)"
proof -
  have dm: "reachable demo_manager"
    unfolding demo_manager_def by (intro reachable.callback reachable.new)
  have "fst (snd (Start demo_channel demo_manager demo_world)) = running_manager"
    by (simp add: demo_defs manager_defs Let_def)
  with reachable.start[OF dm, of demo_channel demo_world]
  have r: "reachable running_manager" by simp
  have i: "IsRunning running_manager (ID demo_channel)" by (simp add: IsRunning_def demo_defs)
  have id: "ID demo_channel = UUID ''c1''" by (simp add: demo_defs)
  from one_live_process_per_channel[OF r, of "UUID ''c1''" demo_channel running_world] r i
  show ?thesis unfolding id by blast
qed

subsection \<open>The channel service\<close>

lemmas service_defs = StartChannel_def StopChannel_def RestartChannel_def DeleteChannel_def

lemma GetByID_ID: "GetByID c w = Inr ch \<Longrightarrow> ID ch = c"
  by (auto simp: GetByID_def find_Some_iff split: option.splits)

lemma GetByID_same_rows:
  "rows w' = rows w \<Longrightarrow> db_error w' = db_error w \<Longrightarrow> GetByID c w' = GetByID c w"
  by (simp add: GetByID_def split: option.splits)

lemma terminate_frame: "rows (terminate pid w) = rows w \<and> db_error (terminate pid w) = db_error w"
  by (simp add: terminate_def send_signal_def Let_def)

lemma Stop_frame:
  "rows (snd (snd (Stop c m w))) = rows w \<and> db_error (snd (snd (Stop c m w))) = db_error w"
  by (simp add: Stop_def RemoveAll_def Let_def terminate_frame split: option.splits)

lemma UpdateStatus_ok:
  "db_error w = None \<Longrightarrow> \<exists>w'. UpdateStatus c s w = (None, w') \<and> db_error w' = None"
  by (simp add: UpdateStatus_def)

lemma StopChannel_running:
  assumes row: "GetByID c w = Inr r" and run: "IsRunning m c"
  shows "\<exists>m1 w1. StopChannel c (m, w) = (None, m1, w1)"
proof -
  have up: "db_error w = None" using GetByID_db_up[OF row] .
  obtain wa where a: "UpdateStatus c ChannelStatusStopping w = (None, wa)" "db_error wa = None"
    using UpdateStatus_ok[OF up] by blast
  obtain r2 m2 w2 where s: "Stop c m wa = (r2, m2, w2)" by (cases "Stop c m wa") auto
  have r2: "r2 = None" using Stop_result[of c m wa] s by simp
  have "db_error w2 = None" using Stop_frame[of c m wa] s a by simp
  then obtain w3 where b: "UpdateStatus c ChannelStatusStopped w2 = (None, w3)"
    using UpdateStatus_ok by blast
  show ?thesis using row run a s r2 b by (simp add: StopChannel_def)
qed

text \<open>
  Claim C4. For a channel whose row can be read: \<open>StopChannel\<close> on a channel that is
  not running returns no error, leaves the process manager as it is and the row with
  status \<open>stopped\<close>; \<open>StartChannel\<close> on a channel that is running returns no error,
  leaves the process manager as it is, spawns nothing, and the row has status
  \<open>running\<close>.
\<close>

theorem lifecycle_idempotent:
  assumes row: "GetByID c w = Inr ch"
  shows "(\<not> IsRunning m c \<longrightarrow>
            (\<exists>w' ch'. StopChannel c (m, w) = (None, m, w') \<and> GetByID c w' = Inr ch'
                      \<and> Status ch' = ChannelStatusStopped))
       \<and> (IsRunning m c \<longrightarrow>
            (\<exists>w' ch'. StartChannel c (m, w) = (None, m, w') \<and> GetByID c w' = Inr ch'
                      \<and> Status ch' = ChannelStatusRunning
                      \<and> next_pid w' = next_pid w \<and> events w' = events w \<and> alive w' = alive w))"
  using row GetByID_UpdateStatus[OF row] UpdateStatus_frame
  by (simp add: StopChannel_def StartChannel_def)

text \<open>The stopped demo channel is stopped once more, the running one started once more.\<close>

theorem lifecycle_idempotent_witness:
  "GetByID (UUID ''c1'') demo_world = Inr demo_channel
   \<and> \<not> IsRunning demo_manager (UUID ''c1'')
   \<and> (\<exists>w' ch'. StopChannel (UUID ''c1'') (demo_manager, demo_world) = (None, demo_manager, w')
          \<and> GetByID (UUID ''c1'') w' = Inr ch' \<and> Status ch' = ChannelStatusStopped)
   \<and> GetByID (UUID ''c1'') running_world = Inr (demo_channel\<lparr>Status := ChannelStatusRunning\<rparr>)
   \<and> IsRunning running_manager (UUID ''c1'')
   \<and> (\<exists>w' ch'. StartChannel (UUID ''c1'') (running_manager, running_world) = (None, running_manager, w')
          \<and> GetByID (UUID ''c1'') w' = Inr ch' \<and> Status ch' = ChannelStatusRunning
          \<and> next_pid w' = 101 \<and> events w' = [] \<and> alive w' = {100})"
proof -
  have a: "GetByID (UUID ''c1'') demo_world = Inr demo_channel"
    by (simp add: GetByID_def demo_defs)
  have b: "\<not> IsRunning demo_manager (UUID ''c1'')" by (simp add: IsRunning_def demo_defs)
  have c: "GetByID (UUID ''c1'') running_world = Inr (demo_channel\<lparr>Status := ChannelStatusRunning\<rparr>)"
    by (simp add: GetByID_def demo_defs)
  have d: "IsRunning running_manager (UUID ''c1'')" by (simp add: IsRunning_def demo_defs)
  have e: "next_pid running_world = 101" "events running_world = []" "alive running_world = {100}"
    by (simp_all add: demo_defs)
  from lifecycle_idempotent[OF a, of demo_manager] lifecycle_idempotent[OF c, of running_manager]
       a b c d
  show ?thesis unfolding e[symmetric] by blast
qed

text \<open>
  Claim C8. When \<open>StartChannel\<close> reaches \<open>Start\<close> for a readable row of a channel
  that is not running and \<open>Start\<close> fails, whatever the cause, the caller gets that
  error, the table is unchanged and has no entry for the channel, no child was spawned,
  and the row has status \<open>error\<close>. With a configured logo whose file does not exist,
  \<open>buildArgs\<close> returns the logo-not-found error for the resolved path, and the world
  \<open>Start\<close> leaves is the one after its own \<open>MkdirAll\<close>: the builder changed nothing.
\<close>

theorem failed_spawn_leaves_error:
  assumes row: "GetByID c w = Inr ch"
    and idle: "\<not> IsRunning m c"
    and fails: "fst (Start ch m (snd (UpdateStatus c ChannelStatusStarting w))) = Some e"
  shows "(\<exists>m' w' ch'. StartChannel c (m, w) = (Some e, m', w')
            \<and> processes m' = processes m \<and> \<not> IsRunning m' c
            \<and> GetByID c w' = Inr ch' \<and> Status ch' = ChannelStatusError
            \<and> next_pid w' = next_pid w \<and> events w' = events w)
       \<and> (\<forall>l. Logo ch = Some l \<and> Path l \<noteq> [] \<and> stat w (resolveLogoPath m l) = StatNotExist
              \<and> mkdir_error w = None \<longrightarrow>
            buildArgs m w ch (outputDirOf m c) (length (processes m))
              = Inl (ErrLogoNotFound (resolveLogoPath m l))
            \<and> Start ch m w = (Some (ErrBuildArgs (ErrLogoNotFound (resolveLogoPath m l))), m,
                               snd (MkdirAll (outputDirOf m c) w)))"
proof -
  obtain w1 where u1: "UpdateStatus c ChannelStatusStarting w = (None, w1)"
    using GetByID_UpdateStatus[OF row, of ChannelStatusStarting] by metis
  have g1: "GetByID c w1 = Inr (ch\<lparr>Status := ChannelStatusStarting, UpdatedAt := now w\<rparr>)"
    using GetByID_UpdateStatus[OF row, of ChannelStatusStarting] u1 by simp
  have nw1: "next_pid w1 = next_pid w" "events w1 = events w"
    using UpdateStatus_frame[of c ChannelStatusStarting w] u1 by simp_all
  obtain m2 w2 where s: "Start ch m w1 = (Some e, m2, w2)"
    using fails u1 by (cases "Start ch m w1") auto
  have t: "processes m2 = processes m" using Start_failure_table[OF s] .
  have f: "next_pid w2 = next_pid w1" "events w2 = events w1" "rows w2 = rows w1"
          "db_error w2 = db_error w1"
    using Start_failure_world[OF s] by simp_all
  have g2: "GetByID c w2 = GetByID c w1" using f by (intro GetByID_same_rows)
  let ?w3 = "snd (UpdateStatus c ChannelStatusError w2)"
  have g3: "\<exists>ch'. GetByID c ?w3 = Inr ch' \<and> Status ch' = ChannelStatusError"
    using GetByID_UpdateStatus[of c w2 _ ChannelStatusError] g2 g1 by simp
  have sc: "StartChannel c (m, w) = (Some e, m2, ?w3)"
    using row idle u1 s by (simp add: StartChannel_def)
  have n: "next_pid ?w3 = next_pid w" "events ?w3 = events w"
    using f nw1 by (simp_all add: UpdateStatus_frame)
  have first: "\<exists>m' w' ch'. StartChannel c (m, w) = (Some e, m', w')
            \<and> processes m' = processes m \<and> \<not> IsRunning m' c
            \<and> GetByID c w' = Inr ch' \<and> Status ch' = ChannelStatusError
            \<and> next_pid w' = next_pid w \<and> events w' = events w"
    using sc t idle g3 n by (auto simp: IsRunning_def)
  have idc: "ID ch = c" using GetByID_ID[OF row] .
  have second: "\<forall>l. Logo ch = Some l \<and> Path l \<noteq> [] \<and> stat w (resolveLogoPath m l) = StatNotExist
              \<and> mkdir_error w = None \<longrightarrow>
            buildArgs m w ch (outputDirOf m c) (length (processes m))
              = Inl (ErrLogoNotFound (resolveLogoPath m l))
            \<and> Start ch m w = (Some (ErrBuildArgs (ErrLogoNotFound (resolveLogoPath m l))), m,
                               snd (MkdirAll (outputDirOf m c) w))"
    using idle idc by (auto simp: buildArgs_def Start_def MkdirAll_def IsRunning_def Let_def)
  from first second show ?thesis by blast
qed

text \<open>
  The channel with the missing logo, and the demo channel when the encoder binary cannot
  be executed.
\<close>

theorem failed_spawn_leaves_error_witness:
  "(\<exists>m' w' ch'. StartChannel (UUID ''c2'') (demo_manager, demo_world)
                      = (Some (ErrBuildArgs (ErrLogoNotFound ''/logos/missing.png'')), m', w')
        \<and> processes m' = [] \<and> \<not> IsRunning m' (UUID ''c2'')
        \<and> GetByID (UUID ''c2'') w' = Inr ch' \<and> Status ch' = ChannelStatusError
        \<and> next_pid w' = 100 \<and> events w' = [])
   \<and> buildArgs demo_manager demo_world logo_channel ''/hls/c2'' 0
         = Inl (ErrLogoNotFound ''/logos/missing.png'')
   \<and> Start logo_channel demo_manager demo_world
         = (Some (ErrBuildArgs (ErrLogoNotFound ''/logos/missing.png'')), demo_manager,
            demo_world\<lparr>dirs := {''/hls/c2''}\<rparr>)
   \<and> (\<exists>m' w' ch'. StartChannel (UUID ''c1'')
                        (demo_manager, demo_world\<lparr>exec_error := Some ''permission denied''\<rparr>)
                      = (Some (ErrStartFFmpeg ''permission denied''), m', w')
        \<and> processes m' = [] \<and> \<not> IsRunning m' (UUID ''c1'')
        \<and> GetByID (UUID ''c1'') w' = Inr ch' \<and> Status ch' = ChannelStatusError
        \<and> next_pid w' = 100 \<and> events w' = [])"
proof -
  let ?lp = "''/logos/missing.png''"
  let ?wx = "demo_world\<lparr>exec_error := Some ''permission denied''\<rparr>"
  have r2: "GetByID (UUID ''c2'') demo_world = Inr logo_channel"
    by (simp add: GetByID_def demo_defs)
  have r1: "GetByID (UUID ''c1'') ?wx = Inr demo_channel"
    by (simp add: GetByID_def demo_defs)
  have i2: "\<not> IsRunning demo_manager (UUID ''c2'')" and i1: "\<not> IsRunning demo_manager (UUID ''c1'')"
    by (simp_all add: IsRunning_def demo_defs)
  have f2: "fst (Start logo_channel demo_manager (snd (UpdateStatus (UUID ''c2'') ChannelStatusStarting demo_world)))
              = Some (ErrBuildArgs (ErrLogoNotFound ?lp))"
    by (simp add: demo_defs manager_defs repo_defs Let_def)
  have f1: "fst (Start demo_channel demo_manager (snd (UpdateStatus (UUID ''c1'') ChannelStatusStarting ?wx)))
              = Some (ErrStartFFmpeg ''permission denied'')"
    by (simp add: demo_defs manager_defs repo_defs Let_def)
  have lg: "Logo logo_channel = Some \<lparr>Path = ''missing.png'', X = 10, Y = 10, Width = 100, Height = 50\<rparr>
            \<and> Path \<lparr>Path = ''missing.png'', X = 10, Y = 10, Width = 100, Height = 50\<rparr> \<noteq> []
            \<and> stat demo_world (resolveLogoPath demo_manager
                   \<lparr>Path = ''missing.png'', X = 10, Y = 10, Width = 100, Height = 50\<rparr>) = StatNotExist
            \<and> mkdir_error demo_world = None"
    by (simp add: demo_defs resolveLogoPath_def filepath_IsAbs_def filepath_Join_def)
  have rp: "resolveLogoPath demo_manager
              \<lparr>Path = ''missing.png'', X = 10, Y = 10, Width = 100, Height = 50\<rparr> = ?lp"
    by (simp add: demo_defs resolveLogoPath_def filepath_IsAbs_def filepath_Join_def)
  have od: "outputDirOf demo_manager (UUID ''c2'') = ''/hls/c2''"
    by (simp add: demo_defs outputDirOf_def filepath_Join_def)
  have mk: "snd (MkdirAll ''/hls/c2'' demo_world) = demo_world\<lparr>dirs := {''/hls/c2''}\<rparr>"
    by (simp add: MkdirAll_def demo_defs)
  have c: "processes demo_manager = []" "next_pid demo_world = 100" "events demo_world = []"
          "next_pid ?wx = 100" "events ?wx = []"
    by (simp_all add: demo_defs)
  note t2 = failed_spawn_leaves_error[OF r2 i2 f2]
  note t1 = failed_spawn_leaves_error[OF r1 i1 f1]
  from t2 lg have b: "buildArgs demo_manager demo_world logo_channel (outputDirOf demo_manager (UUID ''c2''))
                        (length (processes demo_manager))
                        = Inl (ErrLogoNotFound (resolveLogoPath demo_manager
                             \<lparr>Path = ''missing.png'', X = 10, Y = 10, Width = 100, Height = 50\<rparr>))
                      \<and> Start logo_channel demo_manager demo_world
                        = (Some (ErrBuildArgs (ErrLogoNotFound (resolveLogoPath demo_manager
                             \<lparr>Path = ''missing.png'', X = 10, Y = 10, Width = 100, Height = 50\<rparr>))),
                           demo_manager, snd (MkdirAll (outputDirOf demo_manager (UUID ''c2'')) demo_world))"
    by blast
  from t2 have a2: "\<exists>m' w' ch'. StartChannel (UUID ''c2'') (demo_manager, demo_world)
                      = (Some (ErrBuildArgs (ErrLogoNotFound ?lp)), m', w')
        \<and> processes m' = [] \<and> \<not> IsRunning m' (UUID ''c2'')
        \<and> GetByID (UUID ''c2'') w' = Inr ch' \<and> Status ch' = ChannelStatusError
        \<and> next_pid w' = 100 \<and> events w' = []"
    unfolding c by blast
  from t1 have a1: "\<exists>m' w' ch'. StartChannel (UUID ''c1'') (demo_manager, ?wx)
                      = (Some (ErrStartFFmpeg ''permission denied''), m', w')
        \<and> processes m' = [] \<and> \<not> IsRunning m' (UUID ''c1'')
        \<and> GetByID (UUID ''c1'') w' = Inr ch' \<and> Status ch' = ChannelStatusError
        \<and> next_pid w' = 100 \<and> events w' = []"
    unfolding c by blast
  from a2 a1 b show ?thesis unfolding rp od mk c by simp
qed

text \<open>
  Claim C7, as the code has it. \<open>Restart\<close> of the process manager is \<open>Stop\<close>, one
  second of sleep and \<open>Start\<close> with the channel of the old entry when the channel has
  an entry, and the not-running error, with nothing changed, when it has none. The
  service's \<open>RestartChannel\<close>, for a readable row, is \<open>StartChannel\<close> alone when the
  channel is not running, and \<open>StopChannel\<close>, 500 ms of sleep and \<open>StartChannel\<close>
  when it is.
\<close>

theorem restart_is_stop_then_start:
  "(\<forall>p ch. map_of (processes m) c = Some p \<and> Channel_snapshot p = Some ch \<longrightarrow>
       (\<exists>m1 w1. Stop c m w = (None, m1, w1) \<and> Restart c m w = Start ch m1 (Sleep second w1)))
   \<and> (map_of (processes m) c = None \<longrightarrow> Restart c m w = (Some (ErrNotRunning c), m, w))
   \<and> (\<forall>r. GetByID c w = Inr r \<and> \<not> IsRunning m c \<longrightarrow>
         RestartChannel c (m, w) = StartChannel c (m, w))
   \<and> (\<forall>r. GetByID c w = Inr r \<and> IsRunning m c \<longrightarrow>
         (\<exists>m1 w1. StopChannel c (m, w) = (None, m1, w1)
            \<and> RestartChannel c (m, w) = StartChannel c (m1, Sleep (500 * millisecond) w1)))"
proof -
  have a: "\<forall>p ch. map_of (processes m) c = Some p \<and> Channel_snapshot p = Some ch \<longrightarrow>
       (\<exists>m1 w1. Stop c m w = (None, m1, w1) \<and> Restart c m w = Start ch m1 (Sleep second w1))"
  proof (intro allI impI)
    fix p ch assume h: "map_of (processes m) c = Some p \<and> Channel_snapshot p = Some ch"
    obtain r1 m1 w1 where s: "Stop c m w = (r1, m1, w1)" by (cases "Stop c m w") auto
    have "r1 = None" using Stop_result[of c m w] s by simp
    thus "\<exists>m1 w1. Stop c m w = (None, m1, w1) \<and> Restart c m w = Start ch m1 (Sleep second w1)"
      using h s by (simp add: Restart_def)
  qed
  have b: "map_of (processes m) c = None \<longrightarrow> Restart c m w = (Some (ErrNotRunning c), m, w)"
    by (simp add: Restart_def)
  have c: "\<forall>r. GetByID c w = Inr r \<and> \<not> IsRunning m c \<longrightarrow>
         RestartChannel c (m, w) = StartChannel c (m, w)"
    by (simp add: RestartChannel_def)
  have d: "\<forall>r. GetByID c w = Inr r \<and> IsRunning m c \<longrightarrow>
         (\<exists>m1 w1. StopChannel c (m, w) = (None, m1, w1)
            \<and> RestartChannel c (m, w) = StartChannel c (m1, Sleep (500 * millisecond) w1))"
  proof (intro allI impI)
    fix r assume h: "GetByID c w = Inr r \<and> IsRunning m c"
    then obtain m1 w1 where s: "StopChannel c (m, w) = (None, m1, w1)"
      using StopChannel_running by blast
    thus "\<exists>m1 w1. StopChannel c (m, w) = (None, m1, w1)
            \<and> RestartChannel c (m, w) = StartChannel c (m1, Sleep (500 * millisecond) w1)"
      using h by (simp add: RestartChannel_def)
  qed
  from a b c d show ?thesis by blast
qed

text \<open>The four cases on the running and on the stopped demo channel.\<close>

theorem restart_is_stop_then_start_witness:
  "(\<exists>m1 w1. Stop (UUID ''c1'') running_manager running_world = (None, m1, w1)
       \<and> Restart (UUID ''c1'') running_manager running_world = Start demo_channel m1 (Sleep second w1))
   \<and> Restart (UUID ''c1'') demo_manager demo_world
        = (Some (ErrNotRunning (UUID ''c1'')), demo_manager, demo_world)
   \<and> RestartChannel (UUID ''c1'') (demo_manager, demo_world)
        = StartChannel (UUID ''c1'') (demo_manager, demo_world)
   \<and> (\<exists>m1 w1. StopChannel (UUID ''c1'') (running_manager, running_world) = (None, m1, w1)
       \<and> RestartChannel (UUID ''c1'') (running_manager, running_world)
           = StartChannel (UUID ''c1'') (m1, Sleep (500 * millisecond) w1))"
proof -
  have a: "map_of (processes running_manager) (UUID ''c1'') = Some demo_process
           \<and> Channel_snapshot demo_process = Some demo_channel"
    by (simp add: demo_defs)
  have b: "map_of (processes demo_manager) (UUID ''c1'') = None" by (simp add: demo_defs)
  have c: "GetByID (UUID ''c1'') demo_world = Inr demo_channel \<and> \<not> IsRunning demo_manager (UUID ''c1'')"
    by (simp add: GetByID_def IsRunning_def demo_defs)
  have d: "GetByID (UUID ''c1'') running_world = Inr (demo_channel\<lparr>Status := ChannelStatusRunning\<rparr>)
           \<and> IsRunning running_manager (UUID ''c1'')"
    by (simp add: GetByID_def IsRunning_def demo_defs)
  note run = restart_is_stop_then_start[of running_manager "UUID ''c1''" running_world]
  note idle = restart_is_stop_then_start[of demo_manager "UUID ''c1''" demo_world]
  from run a have 1: "\<exists>m1 w1. Stop (UUID ''c1'') running_manager running_world = (None, m1, w1)
       \<and> Restart (UUID ''c1'') running_manager running_world = Start demo_channel m1 (Sleep second w1)"
    by blast
  from idle b have 2: "Restart (UUID ''c1'') demo_manager demo_world
        = (Some (ErrNotRunning (UUID ''c1'')), demo_manager, demo_world)" by blast
  from idle c have 3: "RestartChannel (UUID ''c1'') (demo_manager, demo_world)
        = StartChannel (UUID ''c1'') (demo_manager, demo_world)" by blast
  from run d have 4: "\<exists>m1 w1. StopChannel (UUID ''c1'') (running_manager, running_world) = (None, m1, w1)
       \<and> RestartChannel (UUID ''c1'') (running_manager, running_world)
           = StartChannel (UUID ''c1'') (m1, Sleep (500 * millisecond) w1)" by blast
  from 1 2 3 4 show ?thesis by blast
qed

text \<open>
  Claim C7 as stated fails on the code. For the stopped demo channel a plain \<open>Start\<close>
  succeeds but \<open>Restart\<close> of the process manager answers with the not-running error;
  and the service's \<open>RestartChannel\<close> of the running demo channel succeeds with a
  single sleep, of 500 ms, between stop and start.
\<close>

theorem restart_counterexample:
  "\<not> IsRunning demo_manager (UUID ''c1'')
   \<and> fst (Start demo_channel demo_manager demo_world) = None
   \<and> fst (Restart (UUID ''c1'') demo_manager demo_world) = Some (ErrNotRunning (UUID ''c1''))
   \<and> IsRunning running_manager (UUID ''c1'')
   \<and> fst (RestartChannel (UUID ''c1'') (running_manager, running_world)) = None
   \<and> filter (\<lambda>e. case e of EvSleep d \<Rightarrow> True | _ \<Rightarrow> False)
        (events (snd (snd (RestartChannel (UUID ''c1'') (running_manager, running_world)))))
       = [EvSleep (500 * millisecond)]"
  by (simp add: demo_defs manager_defs repo_defs service_defs Let_def)

subsection \<open>Batch operations\<close>

lemmas batch_defs = BatchStopChannels_def batchProcess_def in_flight_def record_job_def
















subsection \<open>Settings\<close>

lemmas settings_defs = SettingsHandler_Update_def UpdateSettings_def CheckRunningChannels_def
  ListChannels_def GetAll_def GetSettings_def GetSystemSettings_def default_document_def
  int_setting_def string_setting_def apply_request_def ranged_def one_of_def document_of_def
  UpdateSystemSettings_def validPresets_def validProfiles_def

lemma CheckRunningChannels_running:
  assumes "\<exists>c \<in> set (rows w). Status c = ChannelStatusRunning"
  shows "\<exists>e. CheckRunningChannels w = Some e"
proof (cases "db_error w")
  case (Some e)
  thus ?thesis by (simp add: CheckRunningChannels_def ListChannels_def GetAll_def)
next
  case None
  have "find (\<lambda>channel. Status channel = ChannelStatusRunning) (rev (sort_key CreatedAt (rows w))) \<noteq> None"
    using assms by (auto simp: find_None_iff)
  thus ?thesis using None
    by (auto simp: CheckRunningChannels_def ListChannels_def GetAll_def split: option.splits)
qed

text \<open>
  Claim C6, as the code has it. While a channel has status \<open>running\<close>, a settings
  update whose body parses is answered with 409 and one whose body does not parse with
  400; in both cases the world, the settings row included, is unchanged, and so it is
  after \<open>UpdateSettings\<close> of the service, which fails on the same check before it
  writes.
\<close>

theorem settings_update_rejected_while_running:
  assumes "\<exists>c \<in> set (rows w). Status c = ChannelStatusRunning"
  shows "SettingsHandler_Update (Some req) w = (StatusConflict, w)
       \<and> SettingsHandler_Update None w = (StatusBadRequest, w)
       \<and> (\<exists>e. UpdateSettings req w = (Inl e, w))"
  using CheckRunningChannels_running[OF assms]
  by (auto simp: SettingsHandler_Update_def UpdateSettings_def)

text \<open>
  With the demo channel running the request for a segment time of 4 s is refused and
  there is still no settings row; with no channel running the same request is accepted
  and the row then holds the 4.
\<close>

theorem settings_update_rejected_while_running_witness:
  "Status (demo_channel\<lparr>Status := ChannelStatusRunning\<rparr>) = ChannelStatusRunning
   \<and> SettingsHandler_Update (Some demo_request) running_world = (StatusConflict, running_world)
   \<and> SettingsHandler_Update None running_world = (StatusBadRequest, running_world)
   \<and> (\<exists>e. UpdateSettings demo_request running_world = (Inl e, running_world))
   \<and> settings_row running_world = None
   \<and> fst (SettingsHandler_Update (Some demo_request) demo_world) = StatusOK
   \<and> map_of (the (settings_row (snd (SettingsHandler_Update (Some demo_request) demo_world)))) ''segment_time''
        = Some (JNumber 4)"
proof -
  have h: "\<exists>c \<in> set (rows running_world). Status c = ChannelStatusRunning"
    by (simp add: demo_defs)
  have a: "settings_row running_world = None" by (simp add: demo_defs)
  have b: "fst (SettingsHandler_Update (Some demo_request) demo_world) = StatusOK
     \<and> map_of (the (settings_row (snd (SettingsHandler_Update (Some demo_request) demo_world)))) ''segment_time''
        = Some (JNumber 4)"
    by (simp add: settings_defs demo_defs demo_request_def)
  from settings_update_rejected_while_running[OF h, of demo_request] a b
  show ?thesis by simp
qed

text \<open>
  Claim C6 as stated fails on the code: with the demo channel running, a settings update
  whose body does not parse is answered with 400, not with 409.
\<close>

theorem malformed_settings_update_counterexample:
  "find (\<lambda>c. Status c = ChannelStatusRunning) (rows running_world)
     = Some (demo_channel\<lparr>Status := ChannelStatusRunning\<rparr>)
   \<and> fst (SettingsHandler_Update None running_world) = StatusBadRequest
   \<and> fst (SettingsHandler_Update None running_world) \<noteq> StatusConflict"
  by (simp add: SettingsHandler_Update_def demo_defs)

subsection \<open>Role gating\<close>

lemma serve_unfold:
  "serve V route h =
     (if h = [] \<or> TrimPrefix h ''Bearer '' = h then Respond StatusUnauthorized
      else case V (TrimPrefix h ''Bearer '') of
             None \<Rightarrow> Respond StatusUnauthorized
           | Some role \<Rightarrow>
               (case map_of protected_routes route of
                  None \<Rightarrow> Respond StatusNotFound
                | Some None \<Rightarrow> Next ()
                | Some (Some q) \<Rightarrow>
                    if roleHierarchy role < roleHierarchy q then Respond StatusForbidden else Next ()))"
  by (simp add: serve_def Authenticate_def RequireRole_def Let_def split: option.splits)

lemma roleHierarchy_nonneg: "\<not> roleHierarchy r < 0"
  by (simp add: roleHierarchy_def)

lemma registered_rank:
  "route \<in> set (map fst protected_routes) \<Longrightarrow>
   (map_of protected_routes route = Some None \<and> required_rank route = 0) \<or>
   (\<exists>q. map_of protected_routes route = Some (Some q) \<and> required_rank route = roleHierarchy q)"
proof -
  assume "route \<in> set (map fst protected_routes)"
  then obtain x where "map_of protected_routes route = Some x"
    by (metis map_of_eq_None_iff not_Some_eq set_map image_set)
  thus ?thesis by (cases x) (auto simp: required_rank_def)
qed

lemma rank_table:
  "\<forall>route \<in> set (map fst protected_routes).
     required_rank route = (if route \<in> set spec_admin_routes then 3
                            else if route \<in> set spec_operator_routes then 2 else 0)"
  by (simp add: protected_routes_def required_rank_def roleHierarchy_def
                spec_admin_routes_def spec_operator_routes_def)

text \<open>
  Claim C9, as the code has it. On every registered route behind the authentication
  middleware: a request with no \<open>Authorization\<close> header, with one that does not start
  with \<open>Bearer \<close>, or with a token the validator rejects is answered with 401; a
  request with a valid token is answered with 403 when the rank of its role is below the
  rank the route asks for, and reaches the handler otherwise. A route asks for rank 3
  (admin) when it deletes channels, singly or in a batch, or reads or writes the
  settings, for rank 2 (operator) when it creates or updates a channel, runs a lifecycle
  operation, singly or in a batch, or uploads or deletes a logo, and for nothing more
  than a valid token otherwise; a viewer has rank 1.
\<close>

theorem role_gating:
  assumes reg: "route \<in> set (map fst protected_routes)"
  shows "(authHeader = [] \<or> TrimPrefix authHeader ''Bearer '' = authHeader
            \<or> ValidateToken (TrimPrefix authHeader ''Bearer '') = None
          \<longrightarrow> serve ValidateToken route authHeader = Respond StatusUnauthorized)
       \<and> (\<forall>role. authHeader \<noteq> [] \<and> TrimPrefix authHeader ''Bearer '' \<noteq> authHeader
                  \<and> ValidateToken (TrimPrefix authHeader ''Bearer '') = Some role
          \<longrightarrow> serve ValidateToken route authHeader
                = (if roleHierarchy role < required_rank route then Respond StatusForbidden else Next ()))
       \<and> required_rank route = (if route \<in> set spec_admin_routes then 3
                                else if route \<in> set spec_operator_routes then 2 else 0)
       \<and> roleHierarchy UserRoleViewer = 1 \<and> roleHierarchy UserRoleOperator = 2
       \<and> roleHierarchy UserRoleAdmin = 3"
proof -
  have a: "authHeader = [] \<or> TrimPrefix authHeader ''Bearer '' = authHeader
            \<or> ValidateToken (TrimPrefix authHeader ''Bearer '') = None
          \<longrightarrow> serve ValidateToken route authHeader = Respond StatusUnauthorized"
    by (auto simp: serve_unfold)
  have b: "\<forall>role. authHeader \<noteq> [] \<and> TrimPrefix authHeader ''Bearer '' \<noteq> authHeader
                  \<and> ValidateToken (TrimPrefix authHeader ''Bearer '') = Some role
          \<longrightarrow> serve ValidateToken route authHeader
                = (if roleHierarchy role < required_rank route then Respond StatusForbidden else Next ())"
    using registered_rank[OF reg]
    by (auto simp: serve_unfold roleHierarchy_nonneg)
  have c: "required_rank route = (if route \<in> set spec_admin_routes then 3
                                else if route \<in> set spec_operator_routes then 2 else 0)"
    using rank_table reg by blast
  have d: "roleHierarchy UserRoleViewer = 1 \<and> roleHierarchy UserRoleOperator = 2
       \<and> roleHierarchy UserRoleAdmin = 3" by (simp add: roleHierarchy_def)
  from a b c d show ?thesis by blast
qed

text \<open>Requests of the three roles, and without a usable token, on four of the routes.\<close>

theorem role_gating_witness:
  "serve demo_tokens (GET, ''/channels/'') [] = Respond StatusUnauthorized
   \<and> serve demo_tokens (GET, ''/channels/'') ''viewer-token'' = Respond StatusUnauthorized
   \<and> serve demo_tokens (GET, ''/channels/'') ''Bearer forged'' = Respond StatusUnauthorized
   \<and> serve demo_tokens (GET, ''/channels/'') ''Bearer viewer-token'' = Next ()
   \<and> serve demo_tokens (POST, ''/channels/:id/start'') ''Bearer viewer-token'' = Respond StatusForbidden
   \<and> serve demo_tokens (POST, ''/channels/:id/start'') ''Bearer operator-token'' = Next ()
   \<and> serve demo_tokens (DELETE, ''/channels/:id'') ''Bearer operator-token'' = Respond StatusForbidden
   \<and> serve demo_tokens (DELETE, ''/channels/:id'') ''Bearer admin-token'' = Next ()
   \<and> serve demo_tokens (PUT, ''/settings/'') ''Bearer operator-token'' = Respond StatusForbidden
   \<and> serve demo_tokens (PUT, ''/settings/'') ''Bearer admin-token'' = Next ()"
proof -
  have reg: "(GET, ''/channels/'') \<in> set (map fst protected_routes)"
            "(POST, ''/channels/:id/start'') \<in> set (map fst protected_routes)"
            "(DELETE, ''/channels/:id'') \<in> set (map fst protected_routes)"
            "(PUT, ''/settings/'') \<in> set (map fst protected_routes)"
    by (simp_all add: protected_routes_def)
  have tr: "TrimPrefix ''viewer-token'' ''Bearer '' = ''viewer-token''"
           "TrimPrefix ''Bearer forged'' ''Bearer '' = ''forged''"
           "TrimPrefix ''Bearer viewer-token'' ''Bearer '' = ''viewer-token''"
           "TrimPrefix ''Bearer operator-token'' ''Bearer '' = ''operator-token''"
           "TrimPrefix ''Bearer admin-token'' ''Bearer '' = ''admin-token''"
    by (simp_all add: TrimPrefix_def)
  have tk: "demo_tokens ''forged'' = None" "demo_tokens ''viewer-token'' = Some UserRoleViewer"
           "demo_tokens ''operator-token'' = Some UserRoleOperator"
           "demo_tokens ''admin-token'' = Some UserRoleAdmin"
    by (simp_all add: demo_tokens_def)
  have sp: "(GET, ''/channels/'') \<notin> set spec_admin_routes"
           "(GET, ''/channels/'') \<notin> set spec_operator_routes"
           "(POST, ''/channels/:id/start'') \<notin> set spec_admin_routes"
           "(POST, ''/channels/:id/start'') \<in> set spec_operator_routes"
           "(DELETE, ''/channels/:id'') \<in> set spec_admin_routes"
           "(PUT, ''/settings/'') \<in> set spec_admin_routes"
    by (simp_all add: spec_admin_routes_def spec_operator_routes_def)
  note g = role_gating[where ValidateToken = demo_tokens]
  have 1: "serve demo_tokens (GET, ''/channels/'') [] = Respond StatusUnauthorized"
    using g[OF reg(1), of "[]"] by simp
  have 2: "serve demo_tokens (GET, ''/channels/'') ''viewer-token'' = Respond StatusUnauthorized"
    using g[OF reg(1), of "''viewer-token''"] tr by simp
  have 3: "serve demo_tokens (GET, ''/channels/'') ''Bearer forged'' = Respond StatusUnauthorized"
    using g[OF reg(1), of "''Bearer forged''"] tr tk by simp
  have 4: "serve demo_tokens (GET, ''/channels/'') ''Bearer viewer-token'' = Next ()"
    using g[OF reg(1), of "''Bearer viewer-token''"] tr tk sp by simp
  have 5: "serve demo_tokens (POST, ''/channels/:id/start'') ''Bearer viewer-token'' = Respond StatusForbidden"
    using g[OF reg(2), of "''Bearer viewer-token''"] tr tk sp by simp
  have 6: "serve demo_tokens (POST, ''/channels/:id/start'') ''Bearer operator-token'' = Next ()"
    using g[OF reg(2), of "''Bearer operator-token''"] tr tk sp by simp
  have 7: "serve demo_tokens (DELETE, ''/channels/:id'') ''Bearer operator-token'' = Respond StatusForbidden"
    using g[OF reg(3), of "''Bearer operator-token''"] tr tk sp by simp
  have 8: "serve demo_tokens (DELETE, ''/channels/:id'') ''Bearer admin-token'' = Next ()"
    using g[OF reg(3), of "''Bearer admin-token''"] tr tk sp by simp
  have 9: "serve demo_tokens (PUT, ''/settings/'') ''Bearer operator-token'' = Respond StatusForbidden"
    using g[OF reg(4), of "''Bearer operator-token''"] tr tk sp by simp
  have 10: "serve demo_tokens (PUT, ''/settings/'') ''Bearer admin-token'' = Next ()"
    using g[OF reg(4), of "''Bearer admin-token''"] tr tk sp by simp
  from 1 2 3 4 5 6 7 8 9 10 show ?thesis by blast
qed

text \<open>
  Claim C9 as stated fails on the code: a viewer cannot read everything, reading the
  settings is answered with 403.
\<close>

theorem viewer_cannot_read_settings:
  "demo_tokens ''viewer-token'' = Some UserRoleViewer
   \<and> serve demo_tokens (GET, ''/settings/'') ''Bearer viewer-token'' = Respond StatusForbidden"
  by (simp add: serve_def Authenticate_def RequireRole_def TrimPrefix_def protected_routes_def
                roleHierarchy_def demo_tokens_def Let_def)

subsection \<open>Metrics\<close>

lemma GetProcess_record:
  "GetProcess c m w = Inr tp \<Longrightarrow> MemoryUsage tp = getProcessStats (PID tp) w"
  by (auto simp: GetProcess_def metrics_of_def split: option.splits)

lemma GetAllProcesses_record:
  "tp \<in> set (GetAllProcesses m w) \<Longrightarrow> MemoryUsage tp = getProcessStats (PID tp) w"
  by (auto simp: GetAllProcesses_def metrics_of_def split: option.splits)

text \<open>
  Claim C10. The memory figure of a metrics fetch is never zero: when the status file of
  the pid cannot be read, or the resident set size read from it is zero, the figure is the
  placeholder 104857600 (100 MiB). This holds for \<open>getProcessStats\<close>, for the record
  \<open>GetProcess\<close> returns and for every record \<open>GetAllProcesses\<close> returns: the memory
  usage a record reports for its pid is the placeholder in these cases, and the resident
  set size read otherwise.
\<close>

theorem memory_usage_never_zero:
  "getProcessStats pid w \<noteq> 0
   \<and> (rss_bytes (procfs_status w pid) = 0 \<longrightarrow> getProcessStats pid w = 104857600)
   \<and> (procfs_status w pid = None \<longrightarrow> getProcessStats pid w = 104857600)
   \<and> (\<forall>tp. GetProcess c m w = Inr tp \<longrightarrow> MemoryUsage tp \<noteq> 0)
   \<and> (\<forall>tp \<in> set (GetAllProcesses m w). MemoryUsage tp \<noteq> 0)
   \<and> (\<forall>tp. GetProcess c m w = Inr tp \<longrightarrow>
         (procfs_status w (PID tp) = None \<longrightarrow> MemoryUsage tp = 104857600)
         \<and> MemoryUsage tp = (if rss_bytes (procfs_status w (PID tp)) = 0 then 104857600
                             else rss_bytes (procfs_status w (PID tp))))
   \<and> (\<forall>tp \<in> set (GetAllProcesses m w).
         (procfs_status w (PID tp) = None \<longrightarrow> MemoryUsage tp = 104857600)
         \<and> MemoryUsage tp = (if rss_bytes (procfs_status w (PID tp)) = 0 then 104857600
                             else rss_bytes (procfs_status w (PID tp))))"
proof -
  have a: "getProcessStats pid w \<noteq> 0" for pid
    by (simp add: getProcessStats_def Let_def)
  have b: "rss_bytes (procfs_status w pid) = 0 \<longrightarrow> getProcessStats pid w = 104857600"
    by (simp add: getProcessStats_def)
  have c: "procfs_status w pid = None \<longrightarrow> getProcessStats pid w = 104857600"
    by (simp add: getProcessStats_def rss_bytes_def)
  have v: "getProcessStats q w = (if rss_bytes (procfs_status w q) = 0 then 104857600
                                  else rss_bytes (procfs_status w q))" for q
    by (simp add: getProcessStats_def Let_def)
  have n: "procfs_status w q = None \<longrightarrow> getProcessStats q w = 104857600" for q
    by (simp add: getProcessStats_def rss_bytes_def)
  have d: "\<forall>tp. GetProcess c m w = Inr tp \<longrightarrow> MemoryUsage tp \<noteq> 0"
    using a GetProcess_record by metis
  have e: "\<forall>tp \<in> set (GetAllProcesses m w). MemoryUsage tp \<noteq> 0"
    using a GetAllProcesses_record by metis
  have f: "\<forall>tp. GetProcess c m w = Inr tp \<longrightarrow>
         (procfs_status w (PID tp) = None \<longrightarrow> MemoryUsage tp = 104857600)
         \<and> MemoryUsage tp = (if rss_bytes (procfs_status w (PID tp)) = 0 then 104857600
                             else rss_bytes (procfs_status w (PID tp)))"
    using GetProcess_record[of c m w] v n by metis
  have g: "\<forall>tp \<in> set (GetAllProcesses m w).
         (procfs_status w (PID tp) = None \<longrightarrow> MemoryUsage tp = 104857600)
         \<and> MemoryUsage tp = (if rss_bytes (procfs_status w (PID tp)) = 0 then 104857600
                             else rss_bytes (procfs_status w (PID tp)))"
    using GetAllProcesses_record[of _ m w] v n by metis
  from a b c d e f g show ?thesis by blast
qed

text \<open>
  The running demo channel: with no readable status file, and with a status file that
  reports a resident set of 0 kB, both fetches report the placeholder; with one that
  reports 2048 kB the record reports 2097152 bytes.
\<close>

theorem memory_usage_never_zero_witness:
  "procfs_status running_world 100 = None
   \<and> rss_bytes (procfs_status (running_world\<lparr>procfs_status := (\<lambda>pid. Some ''VmRSS:   0 kB'')\<rparr>) 100) = 0
   \<and> getProcessStats 100 running_world = 104857600
   \<and> getProcessStats 100 (running_world\<lparr>procfs_status := (\<lambda>pid. Some ''VmRSS:   0 kB'')\<rparr>) = 104857600
   \<and> (\<exists>tp. GetProcess (UUID ''c1'') running_manager running_world = Inr tp \<and> MemoryUsage tp \<noteq> 0
          \<and> PID tp = 100 \<and> MemoryUsage tp = 104857600)
   \<and> (\<exists>tp. GetAllProcesses running_manager running_world = [tp] \<and> MemoryUsage tp \<noteq> 0
          \<and> PID tp = 100 \<and> MemoryUsage tp = 104857600)
   \<and> (\<exists>tp. GetProcess (UUID ''c1'') running_manager
               (running_world\<lparr>procfs_status := (\<lambda>pid. Some ''VmRSS:   0 kB'')\<rparr>) = Inr tp
          \<and> MemoryUsage tp = 104857600)
   \<and> (\<exists>tp. GetAllProcesses running_manager
               (running_world\<lparr>procfs_status := (\<lambda>pid. Some ''VmRSS:   0 kB'')\<rparr>) = [tp]
          \<and> MemoryUsage tp = 104857600)
   \<and> (\<exists>tp. GetProcess (UUID ''c1'') running_manager
               (running_world\<lparr>procfs_status := (\<lambda>pid. Some ''VmRSS: 2048 kB'')\<rparr>) = Inr tp
          \<and> MemoryUsage tp = 2097152)"
proof -
  let ?w0 = "running_world\<lparr>procfs_status := (\<lambda>pid. Some ''VmRSS:   0 kB'')\<rparr>"
  let ?w2 = "running_world\<lparr>procfs_status := (\<lambda>pid. Some ''VmRSS: 2048 kB'')\<rparr>"
  have n: "procfs_status running_world 100 = None" by (simp add: demo_defs)
  have z: "rss_bytes (procfs_status ?w0 100) = 0" by (simp add: parse_defs)
  have k: "rss_bytes (procfs_status ?w2 100) = 2097152" by (simp add: parse_defs)
  obtain tp where g: "GetProcess (UUID ''c1'') running_manager running_world = Inr tp" and gp: "PID tp = 100"
    by (simp add: GetProcess_def metrics_of_def demo_defs)
  obtain tq where a: "GetAllProcesses running_manager running_world = [tq]" and ap: "PID tq = 100"
    by (simp add: GetAllProcesses_def metrics_of_def demo_defs)
  obtain tp0 where g0: "GetProcess (UUID ''c1'') running_manager ?w0 = Inr tp0" and gp0: "PID tp0 = 100"
    by (simp add: GetProcess_def metrics_of_def demo_defs)
  obtain tq0 where a0: "GetAllProcesses running_manager ?w0 = [tq0]" and ap0: "PID tq0 = 100"
    by (simp add: GetAllProcesses_def metrics_of_def demo_defs)
  obtain tp2 where g2: "GetProcess (UUID ''c1'') running_manager ?w2 = Inr tp2" and gp2: "PID tp2 = 100"
    by (simp add: GetProcess_def metrics_of_def demo_defs)
  note t1 = memory_usage_never_zero[of 100 running_world "UUID ''c1''" running_manager]
  note t0 = memory_usage_never_zero[of 100 ?w0 "UUID ''c1''" running_manager]
  note t2 = memory_usage_never_zero[of 100 ?w2 "UUID ''c1''" running_manager]
  from t1 n have p1: "getProcessStats 100 running_world = 104857600" by blast
  from t0 z have p2: "getProcessStats 100 ?w0 = 104857600" by blast
  from t1 g have p3: "MemoryUsage tp \<noteq> 0" by blast
  from t1 a have p4: "MemoryUsage tq \<noteq> 0" by simp
  from t1 g have "procfs_status running_world (PID tp) = None \<longrightarrow> MemoryUsage tp = 104857600" by blast
  hence p5: "MemoryUsage tp = 104857600" using n gp by simp
  from t1 a have "procfs_status running_world (PID tq) = None \<longrightarrow> MemoryUsage tq = 104857600" by simp
  hence p6: "MemoryUsage tq = 104857600" using n ap by simp
  from t0 g0 have "MemoryUsage tp0 = (if rss_bytes (procfs_status ?w0 (PID tp0)) = 0 then 104857600
                             else rss_bytes (procfs_status ?w0 (PID tp0)))" by blast
  hence p7: "MemoryUsage tp0 = 104857600" using z gp0 by simp
  from t0 a0 have "MemoryUsage tq0 = (if rss_bytes (procfs_status ?w0 (PID tq0)) = 0 then 104857600
                             else rss_bytes (procfs_status ?w0 (PID tq0)))" by simp
  hence p8: "MemoryUsage tq0 = 104857600" using z ap0 by simp
  from t2 g2 have "MemoryUsage tp2 = (if rss_bytes (procfs_status ?w2 (PID tp2)) = 0 then 104857600
                             else rss_bytes (procfs_status ?w2 (PID tp2)))" by blast
  hence p9: "MemoryUsage tp2 = 2097152" using k gp2 by simp
  from n z p1 p2 p3 p4 p5 p6 p7 p8 p9 g a g0 a0 g2 gp ap show ?thesis by blast
qed

end
